theory Spec2Isabelle
  imports Main "HOL-Library.Multiset"
begin

section \<open>The socket hook (hooks/useSocket.ts)\<close>

text \<open>
  Strings are \<open>string\<close>; the characters of a text are its code units below 256.
  A payload is the value handed to \<open>socket.emit\<close> or received by a handler: one
  constructor for each shape the source sends or expects.
\<close>

record Message =
  msg_id :: string
  msg_text :: string
  sender :: string
  timestamp :: nat

text \<open>
  A value stored in, or read from, the \<open>responses\<close> object of a poll: a number, or a
  truthy value that is not a number (a function or object that every object inherits,
  or the non-empty string that adding 1 to such a value or to an earlier such string
  gives).
\<close>

datatype tally = Number nat | NotANumber

record Poll =
  question :: string
  options :: "string list"
  responses :: "string \<rightharpoonup> tally"

datatype payload =
    RoomId string
  | RoomRef string
  | MicToggle bool string
  | ChatMessage Message
  | PollCreated Poll
  | PollResponse string
  | StudentRef string string
  | Count int
  | Empty

text \<open>
  The socket object of socket.io-client, as far as the hook drives it: the messages
  given to \<open>emit\<close>, in order, and the number of explicit \<open>connect()\<close> calls.
\<close>

record Socket =
  emitted :: "(string \<times> payload) list"
  connect_calls :: nat

definition emit :: "string \<Rightarrow> payload \<Rightarrow> Socket \<Rightarrow> Socket" where
  "emit event data s = s\<lparr>emitted := emitted s @ [(event, data)]\<rparr>"

definition connect :: "Socket \<Rightarrow> Socket" where
  "connect s = s\<lparr>connect_calls := Suc (connect_calls s)\<rparr>"

text \<open>The three state variables of \<open>useSocket\<close>; \<open>socket\<close> is \<open>None\<close> for null.\<close>

record Hook =
  socket :: "Socket option"
  isConnected :: bool
  error :: string

definition initial_hook :: Hook where
  "initial_hook = \<lparr>socket = None, isConnected = False, error = ''''\<rparr>"

text \<open>The effect: creates the socket and stores it with \<open>setSocket\<close>.\<close>

definition mount :: "Hook \<Rightarrow> Hook" where
  "mount h = h\<lparr>socket := Some \<lparr>emitted = [], connect_calls = 0\<rparr>\<rparr>"

text \<open>The handlers registered on the socket.\<close>

definition on_connect :: "Hook \<Rightarrow> Hook" where
  "on_connect h = h\<lparr>isConnected := True, error := ''''\<rparr>"

definition on_connect_error :: "Hook \<Rightarrow> Hook" where
  "on_connect_error h = h\<lparr>error := ''Connection error. Retrying...'', isConnected := False\<rparr>"

definition on_disconnect :: "string \<Rightarrow> Hook \<Rightarrow> Hook" where
  "on_disconnect reason h =
     (let h' = h\<lparr>isConnected := False\<rparr>
      in if reason = ''io server disconnect''
         then h'\<lparr>socket := map_option connect (socket h')\<rparr>
         else h')"

definition on_reconnect :: "Hook \<Rightarrow> Hook" where
  "on_reconnect h = h\<lparr>isConnected := True, error := ''''\<rparr>"

definition on_reconnect_error :: "Hook \<Rightarrow> Hook" where
  "on_reconnect_error h =
     h\<lparr>error := ''Reconnection failed. Check your internet connection.''\<rparr>"

text \<open>The guard \<open>socket && isConnected\<close> of the three sending functions.\<close>

definition connected :: "Hook \<Rightarrow> bool" where
  "connected h = (socket h \<noteq> None \<and> isConnected h)"

definition sendMessage :: "string \<Rightarrow> payload \<Rightarrow> Hook \<Rightarrow> Hook" where
  "sendMessage event data h =
     (case socket h of
        Some s \<Rightarrow>
          if isConnected h then h\<lparr>socket := Some (emit event data s)\<rparr>
          else h\<lparr>error := ''Cannot send message. Not connected to server.''\<rparr>
      | None \<Rightarrow> h\<lparr>error := ''Cannot send message. Not connected to server.''\<rparr>)"

definition joinRoom :: "string \<Rightarrow> Hook \<Rightarrow> Hook" where
  "joinRoom roomId h =
     (case socket h of
        Some s \<Rightarrow> if isConnected h then h\<lparr>socket := Some (emit ''join-room'' (RoomId roomId) s)\<rparr> else h
      | None \<Rightarrow> h)"

definition leaveRoom :: "string \<Rightarrow> Hook \<Rightarrow> Hook" where
  "leaveRoom roomId h =
     (case socket h of
        Some s \<Rightarrow> if isConnected h then h\<lparr>socket := Some (emit ''leave-room'' (RoomId roomId) s)\<rparr> else h
      | None \<Rightarrow> h)"

text \<open>
  What the specification says of the two room operations: each is \<open>send\<close> of the
  corresponding message.
\<close>

definition joinRoom_spec :: "string \<Rightarrow> Hook \<Rightarrow> Hook" where
  "joinRoom_spec roomId h = sendMessage ''join-room'' (RoomId roomId) h"

definition leaveRoom_spec :: "string \<Rightarrow> Hook \<Rightarrow> Hook" where
  "leaveRoom_spec roomId h = sendMessage ''leave-room'' (RoomId roomId) h"

text \<open>The messages a hook has handed to its socket so far.\<close>

definition outbox :: "Hook \<Rightarrow> (string \<times> payload) list" where
  "outbox h = (case socket h of None \<Rightarrow> [] | Some s \<Rightarrow> emitted s)"

section \<open>The state the two components share\<close>

text \<open>
  \<open>TeacherInterface\<close> and \<open>StudentInterface\<close> each declare the hook, the chat
  messages, the chat input and the current poll; the record below holds these four, and
  each component extends it with its own state variables. A component function takes the
  state and returns the state after all its updates.
\<close>

record Client =
  hook :: Hook
  messages :: "Message list"
  newMessage :: string
  currentPoll :: "Poll option"

definition roomId :: string where
  "roomId = ''classroom-main''"

text \<open>
  \<open>String.prototype.trim\<close> on code units below 256: tab, line feed, vertical tab, form
  feed, carriage return, space and no-break space are removed at both ends. A string is
  truthy when it is not empty.
\<close>

definition whitespace :: "char \<Rightarrow> bool" where
  "whitespace c = (c \<in> set [CHR 0x09, CHR 0x0A, CHR 0x0B, CHR 0x0C, CHR 0x0D, CHR 0x20, CHR 0xA0])"

definition trim :: "string \<Rightarrow> string" where
  "trim s = rev (dropWhile whitespace (rev (dropWhile whitespace s)))"

definition truthy :: "string \<Rightarrow> bool" where
  "truthy s = (s \<noteq> [])"

text \<open>\<open>Number.prototype.toString\<close> on a non-negative integer.\<close>

definition digit :: "nat \<Rightarrow> char" where
  "digit d = ''0123456789'' ! d"

fun toString :: "nat \<Rightarrow> string" where
  "toString n =
     (if n < 10 then [digit n]
      else toString (n div 10) @ [digit (n mod 10)])"

declare toString.simps [simp del]

text \<open>
  \<open>sendChatMessage\<close> is the same function in both components but for the sender's
  name. \<open>now\<close> is the reading of \<open>Date.now()\<close> and \<open>date\<close> the value of
  \<open>new Date()\<close>.
\<close>

definition sendChatMessage :: "string \<Rightarrow> nat \<Rightarrow> nat \<Rightarrow> 'a Client_scheme \<Rightarrow> 'a Client_scheme" where
  "sendChatMessage name now date c =
     (if truthy (trim (newMessage c)) then
        let message = \<lparr>msg_id = toString now, msg_text = newMessage c,
                         sender = name, timestamp = date\<rparr>
        in c\<lparr>hook := sendMessage ''chat-message'' (ChatMessage message) (hook c),
             messages := messages c @ [message],
             newMessage := ''''\<rparr>
      else c)"

definition on_chat_message :: "Message \<Rightarrow> 'a Client_scheme \<Rightarrow> 'a Client_scheme" where
  "on_chat_message message c = c\<lparr>messages := messages c @ [message]\<rparr>"

definition setNewMessage :: "string \<Rightarrow> 'a Client_scheme \<Rightarrow> 'a Client_scheme" where
  "setNewMessage v c = c\<lparr>newMessage := v\<rparr>"

section \<open>The teacher's component (TeacherInterface.tsx)\<close>

record Teacher = Client +
  isSessionActive :: bool
  isMicrophoneOn :: bool
  isRecording :: bool
  connectedStudents :: int
  pollQuestion :: string
  pollOptions :: "string list"

definition initial_teacher :: Teacher where
  "initial_teacher =
     \<lparr>hook = initial_hook, messages = [], newMessage = '''', currentPoll = None,
      isSessionActive = False, isMicrophoneOn = False, isRecording = False,
      connectedStudents = 0, pollQuestion = '''', pollOptions = ['''', '''']\<rparr>"

text \<open>The teacher once the socket is created and connected.\<close>

definition connected_teacher :: Teacher where
  "connected_teacher = initial_teacher\<lparr>hook := on_connect (mount initial_hook)\<rparr>"

text \<open>The handlers the teacher registers on the socket.\<close>

definition on_student_joined :: "int \<Rightarrow> Teacher \<Rightarrow> Teacher" where
  "on_student_joined count' t = t\<lparr>connectedStudents := count'\<rparr>"

definition on_student_left :: "int \<Rightarrow> Teacher \<Rightarrow> Teacher" where
  "on_student_left count' t = t\<lparr>connectedStudents := count'\<rparr>"

text \<open>
  The \<open>responses\<close> object is created as \<open>{}\<close> and copied with its own properties, so it
  inherits the properties of \<open>Object.prototype\<close>. \<open>responses[key] || 0\<close> is the own
  property when there is one (a stored 0 gives 0, any other stored value is truthy and
  is the result); for a key with no own property it is the inherited function or object
  when the key names one, and 0 otherwise.
\<close>

definition inherited :: "string list" where
  "inherited =
     [''constructor'', ''hasOwnProperty'', ''isPrototypeOf'', ''propertyIsEnumerable'',
      ''toLocaleString'', ''toString'', ''valueOf'', ''__proto__'', ''__defineGetter__'',
      ''__defineSetter__'', ''__lookupGetter__'', ''__lookupSetter__'']"

definition or_zero :: "(string \<rightharpoonup> tally) \<Rightarrow> string \<Rightarrow> tally" where
  "or_zero r key =
     (case r key of
        Some v \<Rightarrow> v
      | None \<Rightarrow> if key \<in> set inherited then NotANumber else Number 0)"

text \<open>\<open>v + 1\<close>: addition on a number, string concatenation on anything else.\<close>

fun plus_one :: "tally \<Rightarrow> tally" where
  "plus_one (Number n) = Number (n + 1)"
| "plus_one NotANumber = NotANumber"

text \<open>
  The \<open>poll-response\<close> handler; its argument is the \<open>option\<close> field of the response.
  The effect that registers it depends on \<open>currentPoll\<close>, so the handler in force tests
  the current value.
\<close>

definition on_poll_response :: "string \<Rightarrow> Teacher \<Rightarrow> Teacher" where
  "on_poll_response opt t =
     (case currentPoll t of
        None \<Rightarrow> t
      | Some prev \<Rightarrow>
          t\<lparr>currentPoll := Some (prev\<lparr>responses :=
              (responses prev)(opt \<mapsto> plus_one (or_zero (responses prev) opt))\<rparr>)\<rparr>)"

text \<open>What the teacher's page shows beside an option: \<open>responses[option] || 0\<close>.\<close>

definition votes_shown :: "Poll \<Rightarrow> string \<Rightarrow> tally" where
  "votes_shown p opt = or_zero (responses p) opt"

text \<open>The teacher's actions. Audio capture and the media recorder are left out.\<close>

definition startSession :: "Teacher \<Rightarrow> Teacher" where
  "startSession t =
     t\<lparr>hook := sendMessage ''session-started'' (RoomRef roomId) (joinRoom roomId (hook t)),
       isSessionActive := True\<rparr>"

definition endSession :: "Teacher \<Rightarrow> Teacher" where
  "endSession t =
     t\<lparr>isSessionActive := False, isMicrophoneOn := False, isRecording := False,
       hook := sendMessage ''session-ended'' (RoomRef roomId) (hook t)\<rparr>"

definition toggleMicrophone :: "Teacher \<Rightarrow> Teacher" where
  "toggleMicrophone t =
     t\<lparr>isMicrophoneOn := \<not> isMicrophoneOn t,
       hook := sendMessage ''microphone-toggle'' (MicToggle (\<not> isMicrophoneOn t) roomId) (hook t)\<rparr>"

definition startRecording :: "Teacher \<Rightarrow> Teacher" where
  "startRecording t =
     t\<lparr>isRecording := True, hook := sendMessage ''recording-started'' (RoomRef roomId) (hook t)\<rparr>"

definition stopRecording :: "Teacher \<Rightarrow> Teacher" where
  "stopRecording t =
     t\<lparr>isRecording := False, hook := sendMessage ''recording-stopped'' (RoomRef roomId) (hook t)\<rparr>"

definition teacher_sendChatMessage :: "nat \<Rightarrow> nat \<Rightarrow> Teacher \<Rightarrow> Teacher" where
  "teacher_sendChatMessage now date t = sendChatMessage ''Teacher'' now date t"

definition setPollQuestion :: "string \<Rightarrow> Teacher \<Rightarrow> Teacher" where
  "setPollQuestion v t = t\<lparr>pollQuestion := v\<rparr>"

definition setPollOptions :: "string list \<Rightarrow> Teacher \<Rightarrow> Teacher" where
  "setPollOptions v t = t\<lparr>pollOptions := v\<rparr>"

definition createPoll :: "Teacher \<Rightarrow> Teacher" where
  "createPoll t =
     (if truthy (pollQuestion t)
         \<and> length (filter (\<lambda>opt. truthy (trim opt)) (pollOptions t)) \<ge> 2
      then
        let poll = \<lparr>question = pollQuestion t,
                      options = filter (\<lambda>opt. truthy (trim opt)) (pollOptions t),
                      responses = Map.empty\<rparr>
        in t\<lparr>currentPoll := Some poll,
             hook := sendMessage ''poll-created'' (PollCreated poll) (hook t),
             pollQuestion := '''',
             pollOptions := ['''', '''']\<rparr>
      else t)"

definition closePoll :: "Teacher \<Rightarrow> Teacher" where
  "closePoll t = t\<lparr>hook := sendMessage ''poll-closed'' Empty (hook t), currentPoll := None\<rparr>"

text \<open>
  The events the teacher's handlers are registered for, each with the parameter its
  handler declares.
\<close>

datatype teacher_incoming =
    StudentJoined int
  | StudentLeft int
  | TeacherChat Message
  | PollResponded string

fun teacher_receive :: "teacher_incoming \<Rightarrow> Teacher \<Rightarrow> Teacher" where
  "teacher_receive (StudentJoined n) t = on_student_joined n t"
| "teacher_receive (StudentLeft n) t = on_student_left n t"
| "teacher_receive (TeacherChat m) t = on_chat_message m t"
| "teacher_receive (PollResponded opt) t = on_poll_response opt t"

text \<open>The events of the hook's socket.\<close>

datatype hook_event = Connect | ConnectError | Disconnect string | Reconnect | ReconnectError

fun hook_step :: "hook_event \<Rightarrow> Hook \<Rightarrow> Hook" where
  "hook_step Connect h = on_connect h"
| "hook_step ConnectError h = on_connect_error h"
| "hook_step (Disconnect reason) h = on_disconnect reason h"
| "hook_step Reconnect h = on_reconnect h"
| "hook_step ReconnectError h = on_reconnect_error h"

text \<open>
  Everything that can happen to the teacher's page: an event arrives, or the teacher
  uses a control. Typing into the option input \<open>index\<close> replaces that entry of
  \<open>pollOptions\<close>; the Add Option button appends an empty entry.
\<close>

datatype teacher_event =
    TeacherReceive teacher_incoming
  | TeacherHookEvent hook_event
  | StartSession
  | EndSession
  | ToggleMicrophone
  | StartRecording
  | StopRecording
  | TypeMessage string
  | SendChat nat nat
  | TypePollQuestion string
  | TypePollOption nat string
  | AddPollOption
  | CreatePoll
  | ClosePoll

fun teacher_step :: "teacher_event \<Rightarrow> Teacher \<Rightarrow> Teacher" where
  "teacher_step (TeacherReceive ev) t = teacher_receive ev t"
| "teacher_step (TeacherHookEvent e) t = t\<lparr>hook := hook_step e (hook t)\<rparr>"
| "teacher_step StartSession t = startSession t"
| "teacher_step EndSession t = endSession t"
| "teacher_step ToggleMicrophone t = toggleMicrophone t"
| "teacher_step StartRecording t = startRecording t"
| "teacher_step StopRecording t = stopRecording t"
| "teacher_step (TypeMessage v) t = setNewMessage v t"
| "teacher_step (SendChat now date) t = teacher_sendChatMessage now date t"
| "teacher_step (TypePollQuestion v) t = setPollQuestion v t"
| "teacher_step (TypePollOption index v) t = setPollOptions ((pollOptions t)[index := v]) t"
| "teacher_step AddPollOption t = setPollOptions (pollOptions t @ ['''']) t"
| "teacher_step CreatePoll t = createPoll t"
| "teacher_step ClosePoll t = closePoll t"

text \<open>
  When the page lets an event happen: the handlers are registered once the socket
  exists; a control must be rendered and not disabled. The poll form (question, option
  inputs, Add Option, Create Poll) is rendered only while \<open>currentPoll\<close> is null, Create
  Poll is disabled while the question is empty, and Close Poll is rendered only while
  there is a poll. The chat input and its Send button are never disabled.
\<close>

fun teacher_enabled :: "teacher_event \<Rightarrow> Teacher \<Rightarrow> bool" where
  "teacher_enabled (TeacherReceive ev) t = (socket (hook t) \<noteq> None)"
| "teacher_enabled (TeacherHookEvent e) t = (socket (hook t) \<noteq> None)"
| "teacher_enabled StartSession t = (\<not> isSessionActive t \<and> isConnected (hook t))"
| "teacher_enabled EndSession t = isSessionActive t"
| "teacher_enabled ToggleMicrophone t = isSessionActive t"
| "teacher_enabled StartRecording t = (\<not> isRecording t \<and> isSessionActive t)"
| "teacher_enabled StopRecording t = isRecording t"
| "teacher_enabled (TypeMessage v) t = True"
| "teacher_enabled (SendChat now date) t = True"
| "teacher_enabled (TypePollQuestion v) t = (currentPoll t = None)"
| "teacher_enabled (TypePollOption index v) t =
     (currentPoll t = None \<and> index < length (pollOptions t))"
| "teacher_enabled AddPollOption t = (currentPoll t = None)"
| "teacher_enabled CreatePoll t = (currentPoll t = None \<and> truthy (pollQuestion t))"
| "teacher_enabled ClosePoll t = (currentPoll t \<noteq> None)"

definition teacher_page_step :: "teacher_event \<Rightarrow> Teacher \<Rightarrow> Teacher" where
  "teacher_page_step e t = (if teacher_enabled e t then teacher_step e t else t)"

text \<open>The teacher's page after a sequence of events, from the mounted component.\<close>

definition mounted_teacher :: Teacher where
  "mounted_teacher = initial_teacher\<lparr>hook := mount initial_hook\<rparr>"

definition teacher_page_run :: "teacher_event list \<Rightarrow> Teacher" where
  "teacher_page_run es = fold teacher_page_step es mounted_teacher"

section \<open>The student's component (StudentInterface.tsx)\<close>

datatype quality = Good | Fair | Poor

record Recording =
  rec_id :: nat
  title :: string
  url :: string
  duration :: "string option"
  rec_size :: "string option"

text \<open>The audio volume and the audio element are left out.\<close>

record Student = Client +
  isInClass :: bool
  sessionActive :: bool
  selectedPollOption :: string
  hasVoted :: bool
  recordings :: "Recording list"
  connectionQuality :: quality

definition initial_student :: Student where
  "initial_student =
     \<lparr>hook = initial_hook, messages = [], newMessage = '''', currentPoll = None,
      isInClass = False, sessionActive = False, selectedPollOption = '''',
      hasVoted = False, recordings = [], connectionQuality = Good\<rparr>"

text \<open>The student once the socket is created and connected.\<close>

definition connected_student :: Student where
  "connected_student = initial_student\<lparr>hook := on_connect (mount initial_hook)\<rparr>"

text \<open>The handlers the student registers on the socket.\<close>

definition on_session_started :: "Student \<Rightarrow> Student" where
  "on_session_started s = s\<lparr>sessionActive := True\<rparr>"

definition on_session_ended :: "Student \<Rightarrow> Student" where
  "on_session_ended s = s\<lparr>sessionActive := False, isInClass := False\<rparr>"

definition on_poll_created :: "Poll \<Rightarrow> Student \<Rightarrow> Student" where
  "on_poll_created poll s =
     s\<lparr>currentPoll := Some poll, hasVoted := False, selectedPollOption := ''''\<rparr>"

definition on_poll_closed :: "Student \<Rightarrow> Student" where
  "on_poll_closed s = s\<lparr>currentPoll := None, hasVoted := False\<rparr>"

text \<open>
  \<open>fetchRecordings\<close>: \<open>response\<close> is the list the HTTP request returned, \<open>None\<close> when
  the response was not ok or the request failed.
\<close>

definition fetchRecordings :: "Recording list option \<Rightarrow> Student \<Rightarrow> Student" where
  "fetchRecordings response s =
     (case response of Some data \<Rightarrow> s\<lparr>recordings := data\<rparr> | None \<Rightarrow> s)"

definition setConnectionQuality :: "quality \<Rightarrow> Student \<Rightarrow> Student" where
  "setConnectionQuality q s = s\<lparr>connectionQuality := q\<rparr>"

text \<open>
  The student's actions. \<open>studentName\<close> is drawn at random on each render, so it is an
  argument.
\<close>

definition joinClass :: "string \<Rightarrow> Student \<Rightarrow> Student" where
  "joinClass studentName s =
     s\<lparr>hook := sendMessage ''student-joined'' (StudentRef studentName roomId)
                (joinRoom roomId (hook s)),
       isInClass := True\<rparr>"

definition leaveClass :: "string \<Rightarrow> Student \<Rightarrow> Student" where
  "leaveClass studentName s =
     s\<lparr>isInClass := False,
       hook := sendMessage ''student-left'' (StudentRef studentName roomId) (hook s)\<rparr>"

definition student_sendChatMessage :: "string \<Rightarrow> nat \<Rightarrow> nat \<Rightarrow> Student \<Rightarrow> Student" where
  "student_sendChatMessage studentName now date s = sendChatMessage studentName now date s"

definition setSelectedPollOption :: "string \<Rightarrow> Student \<Rightarrow> Student" where
  "setSelectedPollOption v s = s\<lparr>selectedPollOption := v\<rparr>"

definition submitPollResponse :: "Student \<Rightarrow> Student" where
  "submitPollResponse s =
     (if truthy (selectedPollOption s) \<and> \<not> hasVoted s
      then s\<lparr>hook := sendMessage ''poll-response'' (PollResponse (selectedPollOption s)) (hook s),
             hasVoted := True\<rparr>
      else s)"

text \<open>
  The events the student's handlers are registered for, each with the parameter its
  handler declares. The handlers of \<open>microphone-toggle\<close>, \<open>recording-started\<close> and
  \<open>recording-stopped\<close> only write to the console (the last one then starts
  \<open>fetchRecordings\<close>, whose result arrives as a step of its own).
\<close>

datatype student_incoming =
    SessionStarted
  | SessionEnded
  | StudentChat Message
  | PollOpened Poll
  | PollClosed
  | MicrophoneToggled bool
  | RecordingStarted
  | RecordingStopped

fun student_receive :: "student_incoming \<Rightarrow> Student \<Rightarrow> Student" where
  "student_receive SessionStarted s = on_session_started s"
| "student_receive SessionEnded s = on_session_ended s"
| "student_receive (StudentChat m) s = on_chat_message m s"
| "student_receive (PollOpened p) s = on_poll_created p s"
| "student_receive PollClosed s = on_poll_closed s"
| "student_receive (MicrophoneToggled isOn) s = s"
| "student_receive RecordingStarted s = s"
| "student_receive RecordingStopped s = s"

text \<open>Everything that can happen to a mounted student component, one step at a time.\<close>

datatype student_event =
    Receive student_incoming
  | HookEvent hook_event
  | JoinClass string
  | LeaveClass string
  | SetNewMessage string
  | SendChatMessage string nat nat
  | SetSelectedPollOption string
  | SubmitPollResponse
  | FetchRecordings "Recording list option"
  | SetConnectionQuality quality

fun student_step :: "student_event \<Rightarrow> Student \<Rightarrow> Student" where
  "student_step (Receive ev) s = student_receive ev s"
| "student_step (HookEvent e) s = s\<lparr>hook := hook_step e (hook s)\<rparr>"
| "student_step (JoinClass studentName) s = joinClass studentName s"
| "student_step (LeaveClass studentName) s = leaveClass studentName s"
| "student_step (SetNewMessage v) s = setNewMessage v s"
| "student_step (SendChatMessage studentName now date) s = student_sendChatMessage studentName now date s"
| "student_step (SetSelectedPollOption v) s = setSelectedPollOption v s"
| "student_step SubmitPollResponse s = submitPollResponse s"
| "student_step (FetchRecordings response) s = fetchRecordings response s"
| "student_step (SetConnectionQuality q) s = setConnectionQuality q s"

text \<open>The two events that start and end a poll on the student's side.\<close>

fun poll_boundary :: "student_event \<Rightarrow> bool" where
  "poll_boundary (Receive (PollOpened p)) = True"
| "poll_boundary (Receive PollClosed) = True"
| "poll_boundary other = False"

text \<open>
  When the page lets an event happen. Join Class is rendered while the student is not
  in class and is disabled unless connected and the session is active; Leave Class is
  rendered while in class; the chat input and its Send button are disabled while not in
  class; the options and the Submit Vote button are rendered while there is a poll and
  the student has not voted, and the button is disabled while no option is selected.
\<close>

fun student_enabled :: "student_event \<Rightarrow> Student \<Rightarrow> bool" where
  "student_enabled (Receive ev) s = (socket (hook s) \<noteq> None)"
| "student_enabled (HookEvent e) s = (socket (hook s) \<noteq> None)"
| "student_enabled (JoinClass studentName) s =
     (\<not> isInClass s \<and> isConnected (hook s) \<and> sessionActive s)"
| "student_enabled (LeaveClass studentName) s = isInClass s"
| "student_enabled (SetNewMessage v) s = isInClass s"
| "student_enabled (SendChatMessage studentName now date) s = isInClass s"
| "student_enabled (SetSelectedPollOption v) s =
     (case currentPoll s of
        None \<Rightarrow> False
      | Some p \<Rightarrow> \<not> hasVoted s \<and> v \<in> set (options p))"
| "student_enabled SubmitPollResponse s =
     (currentPoll s \<noteq> None \<and> \<not> hasVoted s \<and> truthy (selectedPollOption s))"
| "student_enabled (FetchRecordings response) s = True"
| "student_enabled (SetConnectionQuality q) s = (socket (hook s) \<noteq> None)"

definition student_page_step :: "student_event \<Rightarrow> Student \<Rightarrow> Student" where
  "student_page_step e s = (if student_enabled e s then student_step e s else s)"

text \<open>The student's page after a sequence of events, from the mounted component.\<close>

definition mounted_student :: Student where
  "mounted_student = initial_student\<lparr>hook := mount initial_hook\<rparr>"

definition student_page_run :: "student_event list \<Rightarrow> Student" where
  "student_page_run es = fold student_page_step es mounted_student"

text \<open>The number of votes among emitted messages.\<close>

definition votes_sent :: "(string \<times> payload) list \<Rightarrow> nat" where
  "votes_sent ms = length (filter (\<lambda>m. fst m = ''poll-response'') ms)"

section \<open>A classroom: one teacher and two students\<close>

record Classroom =
  teacher :: Teacher
  student1 :: Student
  student2 :: Student

text \<open>The messages a hook has emitted between two of its states.\<close>

definition emitted_since :: "Hook \<Rightarrow> Hook \<Rightarrow> (string \<times> payload) list" where
  "emitted_since h h' = drop (length (outbox h)) (outbox h')"

text \<open>
  Modelled from the spec: the Room Coordinator and its Broadcast Log. The server that
  relays the clients' messages is not in the repository; following the specification's
  fan-out, every message a member emits is delivered, in order, to the handler the
  other members have registered for its event name, when its payload has the shape that
  handler declares. A student's \<open>student-joined\<close> and \<open>student-left\<close> carry a name and a
  room where the teacher's handlers take a count, so this relay does not forward them.
\<close>

fun relay_to_teacher :: "string \<times> payload \<Rightarrow> teacher_incoming option" where
  "relay_to_teacher (event, Count n) =
     (if event = ''student-joined'' then Some (StudentJoined n)
      else if event = ''student-left'' then Some (StudentLeft n)
      else None)"
| "relay_to_teacher (event, ChatMessage m) =
     (if event = ''chat-message'' then Some (TeacherChat m) else None)"
| "relay_to_teacher (event, PollResponse opt) =
     (if event = ''poll-response'' then Some (PollResponded opt) else None)"
| "relay_to_teacher (event, other) = None"

fun relay_to_student :: "string \<times> payload \<Rightarrow> student_incoming option" where
  "relay_to_student (event, data) =
     (if event = ''session-started'' then Some SessionStarted
      else if event = ''session-ended'' then Some SessionEnded
      else if event = ''chat-message''
        then (case data of ChatMessage m \<Rightarrow> Some (StudentChat m) | _ \<Rightarrow> None)
      else if event = ''poll-created''
        then (case data of PollCreated p \<Rightarrow> Some (PollOpened p) | _ \<Rightarrow> None)
      else if event = ''poll-closed'' then Some PollClosed
      else if event = ''microphone-toggle''
        then (case data of MicToggle isOn r \<Rightarrow> Some (MicrophoneToggled isOn) | _ \<Rightarrow> None)
      else if event = ''recording-started'' then Some RecordingStarted
      else if event = ''recording-stopped'' then Some RecordingStopped
      else None)"

definition deliver_to_teacher :: "(string \<times> payload) list \<Rightarrow> Teacher \<Rightarrow> Teacher" where
  "deliver_to_teacher out t = fold teacher_receive (List.map_filter relay_to_teacher out) t"

definition deliver_to_student :: "(string \<times> payload) list \<Rightarrow> Student \<Rightarrow> Student" where
  "deliver_to_student out s = fold student_receive (List.map_filter relay_to_student out) s"

definition teacher_does :: "(Teacher \<Rightarrow> Teacher) \<Rightarrow> Classroom \<Rightarrow> Classroom" where
  "teacher_does f c =
     (let t' = f (teacher c); out = emitted_since (hook (teacher c)) (hook t')
      in c\<lparr>teacher := t',
           student1 := deliver_to_student out (student1 c),
           student2 := deliver_to_student out (student2 c)\<rparr>)"

definition student1_does :: "(Student \<Rightarrow> Student) \<Rightarrow> Classroom \<Rightarrow> Classroom" where
  "student1_does f c =
     (let s' = f (student1 c); out = emitted_since (hook (student1 c)) (hook s')
      in c\<lparr>student1 := s',
           teacher := deliver_to_teacher out (teacher c),
           student2 := deliver_to_student out (student2 c)\<rparr>)"

definition student2_does :: "(Student \<Rightarrow> Student) \<Rightarrow> Classroom \<Rightarrow> Classroom" where
  "student2_does f c =
     (let s' = f (student2 c); out = emitted_since (hook (student2 c)) (hook s')
      in c\<lparr>student2 := s',
           teacher := deliver_to_teacher out (teacher c),
           student1 := deliver_to_student out (student1 c)\<rparr>)"

text \<open>All three members mounted and connected, nothing done yet.\<close>

definition classroom_start :: Classroom where
  "classroom_start =
     \<lparr>teacher = connected_teacher, student1 = connected_student,
      student2 = connected_student\<rparr>"

text \<open>
  The scenario of the specification: the teacher creates the poll Q1 with options A and
  B, the first student votes A, the second votes B, the first student chooses B and
  submits again. The state is the one in which the teacher then closes the poll.
\<close>

definition poll_scenario :: Classroom where
  "poll_scenario =
     fold (\<lambda>step c. step c)
       [teacher_does (setPollQuestion ''Q1''),
        teacher_does (setPollOptions [''A'', ''B'']),
        teacher_does createPoll,
        student1_does (setSelectedPollOption ''A''),
        student1_does submitPollResponse,
        student2_does (setSelectedPollOption ''B''),
        student2_does submitPollResponse,
        student1_does (setSelectedPollOption ''B''),
        student1_does submitPollResponse]
       classroom_start"

section \<open>What the specification says of votes and of presence\<close>

text \<open>
  The specification's votes mapping: each vote event names its participant, and a later
  vote of the same participant overwrites the earlier one. The tally of an option is the
  number of participants whose entry is that option.
\<close>

definition spec_votes :: "('p \<times> string) list \<Rightarrow> 'p \<rightharpoonup> string" where
  "spec_votes evs = fold (\<lambda>(p, opt) m. m(p \<mapsto> opt)) evs Map.empty"

definition spec_tally :: "('p \<times> string) list \<Rightarrow> string \<Rightarrow> nat" where
  "spec_tally evs opt =
     length (filter (\<lambda>p. spec_votes evs p = Some opt) (remdups (map fst evs)))"

text \<open>
  The code's tally of the same vote events: the teacher's handler receives the option of
  each event, in order; the tally of an option is the number the page shows for it.
\<close>

definition teacher_counts :: "Teacher \<Rightarrow> string list \<Rightarrow> Teacher" where
  "teacher_counts t opts = fold on_poll_response opts t"

definition teacher_tally :: "Teacher \<Rightarrow> string \<Rightarrow> tally" where
  "teacher_tally t opt =
     (case currentPoll t of None \<Rightarrow> Number 0 | Some p \<Rightarrow> votes_shown p opt)"

text \<open>
  A join or leave in a room, as it reaches the teacher: the participant who joined or
  left, and the number the \<open>student-joined\<close> or \<open>student-left\<close> event carries. The
  handler is given the number only.
\<close>

datatype 'p presence = Joined 'p int | Left 'p int

fun carried :: "'p presence \<Rightarrow> int" where
  "carried (Joined p n) = n"
| "carried (Left p n) = n"

fun teacher_observes :: "'p presence \<Rightarrow> Teacher \<Rightarrow> Teacher" where
  "teacher_observes (Joined p n) t = on_student_joined n t"
| "teacher_observes (Left p n) t = on_student_left n t"

text \<open>
  The specification's members of the room after a sequence of joins and leaves: the
  distinct participants that joined and did not leave since.
\<close>

fun spec_member_step :: "'p presence \<Rightarrow> 'p list \<Rightarrow> 'p list" where
  "spec_member_step (Joined p n) ms = (if p \<in> set ms then ms else ms @ [p])"
| "spec_member_step (Left p n) ms = removeAll p ms"

definition spec_members :: "'p presence list \<Rightarrow> 'p list" where
  "spec_members evs = fold spec_member_step evs []"

text \<open>The teacher's state after the events of a room have been delivered.\<close>

definition teacher_presence :: "'p presence list \<Rightarrow> Teacher \<Rightarrow> Teacher" where
  "teacher_presence evs t = fold teacher_observes evs t"

section \<open>Concrete states and closed forms used below\<close>

text \<open>The connected teacher after creating the poll Q1 with the options A and B.\<close>

definition teacher_with_poll :: Teacher where
  "teacher_with_poll =
     createPoll (setPollOptions [''A'', ''B''] (setPollQuestion ''Q1'' connected_teacher))"

text \<open>
  The teacher's page with no poll open, after the teacher has typed the question Q2,
  added a third option input and typed Yes into the first and No into the third.
\<close>

definition teacher_typing_poll :: Teacher where
  "teacher_typing_poll =
     teacher_page_run
       [TeacherHookEvent Connect, TypePollQuestion ''Q2'', AddPollOption,
        TypePollOption 0 ''Yes'', TypePollOption 2 ''No'']"

text \<open>The teacher's page after the teacher has typed two spaces into the chat input.\<close>

definition teacher_typing_blank :: Teacher where
  "teacher_typing_blank = teacher_page_run [TeacherHookEvent Connect, TypeMessage ''  '']"

text \<open>
  The student's page, connected, before any session has started: not in class.
\<close>

definition student_waiting :: Student where
  "student_waiting = student_page_run [HookEvent Connect]"

text \<open>The student's page in class during a session, with a message typed.\<close>

definition student_in_class :: Student where
  "student_in_class =
     student_page_run
       [HookEvent Connect, Receive SessionStarted, JoinClass ''Student_1'',
        SetNewMessage '' hi '']"

text \<open>A connected student who has received the poll Q1 and has not voted.\<close>

definition student_with_poll :: Student where
  "student_with_poll =
     on_poll_created \<lparr>question = ''Q1'', options = [''A'', ''B''], responses = Map.empty\<rparr>
       connected_student"

text \<open>The poll after the handler has received the options \<open>opts\<close>, in closed form.\<close>

definition counted :: "Poll \<Rightarrow> string list \<Rightarrow> Poll" where
  "counted p opts =
     p\<lparr>responses := (\<lambda>opt. if opt \<in> set opts
                              then Some ((plus_one ^^ count_list opts opt) (votes_shown p opt))
                              else responses p opt)\<rparr>"

text \<open>
  The votes a student has sent, plus one while the latch \<open>hasVoted\<close> is open: a
  quantity that no step other than the start or end of a poll increases.
\<close>

definition budget :: "Student \<Rightarrow> nat" where
  "budget s = votes_sent (outbox (hook s)) + (if hasVoted s then 0 else 1)"

section \<open>Sending\<close>

lemma sendMessage_connected:
  "socket h = Some s \<Longrightarrow> isConnected h \<Longrightarrow>
   sendMessage event data h = h\<lparr>socket := Some (emit event data s)\<rparr>"
  by (simp add: sendMessage_def)

lemma sendMessage_not_connected:
  "\<not> connected h \<Longrightarrow>
   sendMessage event data h = h\<lparr>error := ''Cannot send message. Not connected to server.''\<rparr>"
  by (cases "socket h") (auto simp: sendMessage_def connected_def)

text \<open>
  Claim C5. \<open>sendMessage\<close> hands the message to the socket exactly when the socket
  exists and the hook is connected: then the message is appended to what the socket has
  emitted and nothing else changes (the error text and the connection flag included).
  Otherwise nothing is emitted, and the only change is the error text, which becomes
  the not-connected message. The result is a value of the hook alone, in one step: no
  acknowledgement is awaited and no state outside the hook is touched.
\<close>

theorem sendMessage_gated:
  "(connected h \<longrightarrow>
      (\<exists>s. socket h = Some s \<and>
           sendMessage event data h = h\<lparr>socket := Some (s\<lparr>emitted := emitted s @ [(event, data)]\<rparr>)\<rparr>)
      \<and> outbox (sendMessage event data h) = outbox h @ [(event, data)]
      \<and> error (sendMessage event data h) = error h
      \<and> isConnected (sendMessage event data h) = isConnected h)
   \<and> (\<not> connected h \<longrightarrow>
      sendMessage event data h = h\<lparr>error := ''Cannot send message. Not connected to server.''\<rparr>
      \<and> outbox (sendMessage event data h) = outbox h
      \<and> socket (sendMessage event data h) = socket h
      \<and> isConnected (sendMessage event data h) = isConnected h)"
  by (auto simp: sendMessage_def connected_def outbox_def emit_def split: option.splits)

theorem sendMessage_gated_witness:
  "connected (on_connect (mount initial_hook))
   \<and> outbox (sendMessage ''chat-message'' Empty (on_connect (mount initial_hook)))
       = [(''chat-message'', Empty)]
   \<and> \<not> connected (mount initial_hook)
   \<and> error (sendMessage ''chat-message'' Empty (mount initial_hook))
       = ''Cannot send message. Not connected to server.''
   \<and> outbox (sendMessage ''chat-message'' Empty (mount initial_hook)) = []"
  using sendMessage_gated [of "on_connect (mount initial_hook)" "''chat-message''" Empty]
        sendMessage_gated [of "mount initial_hook" "''chat-message''" Empty]
  by (simp add: connected_def on_connect_def mount_def initial_hook_def outbox_def)

section \<open>Joining and leaving a room\<close>

text \<open>
  Claim C6, as stated: \<open>joinRoom\<close> behaves exactly as \<open>send\<close> of the join message in
  every connection state. It fails on a hook that is not connected: \<open>sendMessage\<close>
  sets the error text there and \<open>joinRoom\<close> has no else branch.
\<close>

theorem joinRoom_not_send_counterexample:
  "joinRoom ''classroom-main'' (mount initial_hook)
     \<noteq> joinRoom_spec ''classroom-main'' (mount initial_hook)
   \<and> error (joinRoom ''classroom-main'' (mount initial_hook)) = ''''
   \<and> error (joinRoom_spec ''classroom-main'' (mount initial_hook))
       = ''Cannot send message. Not connected to server.''"
proof -
  have a: "error (joinRoom ''classroom-main'' (mount initial_hook)) = ''''"
    by (simp add: joinRoom_def mount_def initial_hook_def)
  have b: "error (joinRoom_spec ''classroom-main'' (mount initial_hook))
             = ''Cannot send message. Not connected to server.''"
    by (simp add: joinRoom_spec_def sendMessage_def mount_def initial_hook_def)
  from a b have "joinRoom ''classroom-main'' (mount initial_hook)
     \<noteq> joinRoom_spec ''classroom-main'' (mount initial_hook)"
    by (metis list.distinct(1))
  with a b show ?thesis by simp
qed

text \<open>
  Claim C6, amended. On a connected hook \<open>joinRoom\<close> and \<open>leaveRoom\<close> are
  \<open>sendMessage\<close> of \<open>join-room\<close> and \<open>leave-room\<close> with the room id as payload. On
  a hook that is not connected each leaves the hook as it is: nothing is emitted and no
  error is reported.
\<close>

theorem joinRoom_leaveRoom_send_when_connected:
  "(connected h \<longrightarrow>
      joinRoom room h = joinRoom_spec room h
      \<and> leaveRoom room h = leaveRoom_spec room h)
   \<and> (\<not> connected h \<longrightarrow> joinRoom room h = h \<and> leaveRoom room h = h)"
  by (cases "socket h")
     (auto simp: joinRoom_def leaveRoom_def joinRoom_spec_def leaveRoom_spec_def
                 sendMessage_def connected_def)

theorem joinRoom_leaveRoom_send_when_connected_witness:
  "connected (on_connect (mount initial_hook))
   \<and> joinRoom ''classroom-main'' (on_connect (mount initial_hook))
       = joinRoom_spec ''classroom-main'' (on_connect (mount initial_hook))
   \<and> leaveRoom ''classroom-main'' (on_connect (mount initial_hook))
       = leaveRoom_spec ''classroom-main'' (on_connect (mount initial_hook))
   \<and> \<not> connected (mount initial_hook)
   \<and> joinRoom ''classroom-main'' (mount initial_hook) = mount initial_hook
   \<and> leaveRoom ''classroom-main'' (mount initial_hook) = mount initial_hook"
  using joinRoom_leaveRoom_send_when_connected
          [of "on_connect (mount initial_hook)" "''classroom-main''"]
        joinRoom_leaveRoom_send_when_connected
          [of "mount initial_hook" "''classroom-main''"]
  by (simp add: connected_def on_connect_def mount_def initial_hook_def)

section \<open>Disconnection by the server\<close>

text \<open>
  Claim C9. When the socket reports a disconnect with the reason
  \<open>io server disconnect\<close>, the handler clears the connection flag and calls
  \<open>connect()\<close> on the socket once, so a new connection attempt is under way; the error
  text is left as it was, so no failure is recorded. For any other reason the handler
  makes no call of its own (the library's automatic reconnection, configured with five
  attempts, applies).
\<close>

theorem server_disconnect_reconnects:
  "on_disconnect ''io server disconnect'' \<lparr>socket = Some s, isConnected = c, error = e\<rparr>
     = \<lparr>socket = Some (s\<lparr>connect_calls := Suc (connect_calls s)\<rparr>),
        isConnected = False, error = e\<rparr>"
  by (simp add: on_disconnect_def connect_def)

theorem server_disconnect_reconnects_witness:
  "on_disconnect ''io server disconnect'' (on_connect (mount initial_hook))
     = \<lparr>socket = Some \<lparr>emitted = [], connect_calls = 1\<rparr>, isConnected = False, error = ''''\<rparr>"
  using server_disconnect_reconnects [of "\<lparr>emitted = [], connect_calls = 0\<rparr>" True "''''"]
  by (simp add: on_connect_def mount_def initial_hook_def)

section \<open>Counting votes\<close>

lemma plus_one_pow_Number: "(plus_one ^^ k) (Number n) = Number (n + k)"
  by (induction k) simp_all

lemma plus_one_pow_NotANumber: "(plus_one ^^ k) NotANumber = NotANumber"
  by (induction k) simp_all

lemma on_poll_response_open:
  "currentPoll t = Some p \<Longrightarrow>
   on_poll_response opt t =
     t\<lparr>currentPoll := Some (p\<lparr>responses := (responses p)(opt \<mapsto> plus_one (votes_shown p opt))\<rparr>)\<rparr>"
  by (simp add: on_poll_response_def votes_shown_def)

lemma on_poll_response_closed: "currentPoll t = None \<Longrightarrow> on_poll_response opt t = t"
  by (simp add: on_poll_response_def)

lemma teacher_counts_closed: "currentPoll t = None \<Longrightarrow> teacher_counts t opts = t"
  unfolding teacher_counts_def
  by (induction opts) (simp_all add: on_poll_response_closed)

lemma counted_step:
  "counted (p\<lparr>responses := (responses p)(a \<mapsto> plus_one (votes_shown p a))\<rparr>) opts
     = counted p (a # opts)"
  by (auto simp: counted_def votes_shown_def or_zero_def fun_eq_iff funpow_swap1)

lemma teacher_counts_open:
  "currentPoll t = Some p \<Longrightarrow> teacher_counts t opts = t\<lparr>currentPoll := Some (counted p opts)\<rparr>"
proof (induction opts arbitrary: t p)
  case Nil
  then show ?case by (simp add: teacher_counts_def counted_def)
next
  case (Cons a opts)
  let ?p = "p\<lparr>responses := (responses p)(a \<mapsto> plus_one (votes_shown p a))\<rparr>"
  let ?t = "t\<lparr>currentPoll := Some ?p\<rparr>"
  have step: "on_poll_response a t = ?t"
    using Cons.prems by (rule on_poll_response_open)
  have "teacher_counts t (a # opts) = teacher_counts ?t opts"
    by (simp add: teacher_counts_def step)
  also have "\<dots> = ?t\<lparr>currentPoll := Some (counted ?p opts)\<rparr>"
    by (rule Cons.IH) simp
  also have "counted ?p opts = counted p (a # opts)"
    by (rule counted_step)
  finally show ?case by simp
qed

lemma counted_mset:
  assumes "mset opts = mset opts'"
  shows "counted p opts = counted p opts'"
proof -
  from assms have s: "set opts = set opts'"
    by (rule mset_eq_setD)
  have "count_list opts x = count_list opts' x" for x
    using assms by (metis count_mset)
  then have c: "count_list opts = count_list opts'"
    by (rule ext)
  show ?thesis unfolding counted_def s c ..
qed

lemma teacher_counts_mset:
  "mset opts = mset opts' \<Longrightarrow> teacher_counts t opts = teacher_counts t opts'"
  by (cases "currentPoll t")
     (simp_all add: teacher_counts_closed teacher_counts_open counted_mset [of opts opts'])

lemma teacher_tally_counts:
  "currentPoll t = Some p \<Longrightarrow>
   teacher_tally (teacher_counts t opts) opt
     = (plus_one ^^ count_list opts opt) (teacher_tally t opt)"
  by (simp add: teacher_counts_open teacher_tally_def counted_def votes_shown_def or_zero_def)

lemma fold_upd: "fold (\<lambda>(p, opt) m. m(p \<mapsto> opt)) evs m = m ++ map_of (rev evs)"
proof (induction evs arbitrary: m)
  case Nil
  then show ?case by simp
next
  case (Cons e evs)
  obtain q v where e: "e = (q, v)" by (cases e)
  have "fold (\<lambda>(p, opt) m. m(p \<mapsto> opt)) (e # evs) m
          = fold (\<lambda>(p, opt) m. m(p \<mapsto> opt)) evs (m(q \<mapsto> v))"
    by (simp add: e)
  also have "\<dots> = m(q \<mapsto> v) ++ map_of (rev evs)"
    by (rule Cons.IH)
  also have "\<dots> = m ++ ([q \<mapsto> v] ++ map_of (rev evs))"
    by (auto simp: map_add_def fun_eq_iff split: option.splits)
  also have "[q \<mapsto> v] ++ map_of (rev evs) = map_of (rev (e # evs))"
    by (simp add: e map_of_append)
  finally show ?case .
qed

lemma map_of_rev_distinct: "distinct (map fst xs) \<Longrightarrow> map_of (rev xs) = map_of xs"
proof (induction xs)
  case Nil
  then show ?case by simp
next
  case (Cons x xs)
  then have "map_of xs (fst x) = None"
    by (simp add: map_of_eq_None_iff)
  then have "[fst x \<mapsto> snd x] ++ map_of xs = (map_of xs)(fst x \<mapsto> snd x)"
    by (auto simp: map_add_def fun_eq_iff split: option.splits)
  then show ?case using Cons by (simp add: map_of_append)
qed

lemma spec_votes_distinct: "distinct (map fst evs) \<Longrightarrow> spec_votes evs = map_of evs"
  unfolding spec_votes_def fold_upd
  by (simp add: map_of_rev_distinct)

lemma spec_tally_distinct:
  assumes d: "distinct (map fst evs)"
  shows "spec_tally evs opt = count_list (map snd evs) opt"
proof -
  have "length (filter (\<lambda>p. map_of evs p = Some opt) (map fst evs)) = count_list (map snd evs) opt"
    using d
  proof (induction evs)
    case Nil
    then show ?case by simp
  next
    case (Cons e evs)
    obtain q v where e: "e = (q, v)" by (cases e)
    have nq: "q \<notin> fst ` set evs" using Cons.prems e by simp
    have "filter (\<lambda>p. map_of (e # evs) p = Some opt) (map fst evs)
          = filter (\<lambda>p. map_of evs p = Some opt) (map fst evs)"
      using nq e by (intro filter_cong) auto
    then show ?case using Cons e by simp
  qed
  then show ?thesis
    using d by (simp add: spec_tally_def spec_votes_distinct distinct_remdups_id)
qed

lemma teacher_with_poll_open:
  "currentPoll teacher_with_poll
     = Some \<lparr>question = ''Q1'', options = [''A'', ''B''], responses = Map.empty\<rparr>"
  by (simp add: teacher_with_poll_def createPoll_def setPollOptions_def setPollQuestion_def
        connected_teacher_def initial_teacher_def truthy_def trim_def whitespace_def Let_def)

lemma teacher_with_poll_tally:
  "opt \<notin> set inherited \<Longrightarrow> teacher_tally teacher_with_poll opt = Number 0"
  by (simp add: teacher_tally_def teacher_with_poll_open votes_shown_def or_zero_def)

text \<open>
  Claim C1, as stated: the tally the code folds from the vote events equals the tally of
  the last vote of each participant. It fails when a participant votes twice: the
  teacher's handler counts both votes (the events carry no participant id), so after
  Student_7 votes A and then B the code shows one vote for A where the votes mapping
  has none.
\<close>

theorem revote_counted_again_counterexample:
  "teacher_tally (teacher_counts teacher_with_poll
      (map snd [(''Student_7'', ''A''), (''Student_7'', ''B'')])) ''A'' = Number 1
   \<and> spec_tally [(''Student_7'', ''A''), (''Student_7'', ''B'')] ''A'' = 0
   \<and> teacher_tally (teacher_counts teacher_with_poll
      (map snd [(''Student_7'', ''A''), (''Student_7'', ''B'')])) ''A''
       \<noteq> Number (spec_tally [(''Student_7'', ''A''), (''Student_7'', ''B'')] ''A'')"
proof -
  have z: "teacher_tally teacher_with_poll ''A'' = Number 0"
    by (rule teacher_with_poll_tally) (simp add: inherited_def)
  have "teacher_tally (teacher_counts teacher_with_poll [''A'', ''B'']) ''A'' = Number 1"
    unfolding teacher_tally_counts [OF teacher_with_poll_open] z
    by (simp add: plus_one_pow_Number)
  then have a: "teacher_tally (teacher_counts teacher_with_poll
      (map snd [(''Student_7'', ''A''), (''Student_7'', ''B'')])) ''A'' = Number 1"
    by simp
  have b: "spec_tally [(''Student_7'', ''A''), (''Student_7'', ''B'')] ''A'' = 0"
    by (simp add: spec_tally_def spec_votes_def)
  from a b show ?thesis by simp
qed

text \<open>
  Claim C1, amended. While a poll is open, delivering the same responses in another
  order gives the same state. For an option whose tally is a number, every delivered
  response naming it adds one, so the tally is its earlier count plus the number of
  delivered responses naming it. On a poll with no responses yet, and for an option
  that is not the name of a property every object inherits, the tally equals the tally
  of the per-participant votes mapping whenever no participant has more than one vote
  among those delivered. For an option that is such a name (\<open>constructor\<close>,
  \<open>toString\<close> and the like) the page never holds a number on a poll that started with
  no responses.
\<close>

theorem tally_counts_every_response:
  "(mset opts = mset opts' \<longrightarrow> teacher_counts t opts = teacher_counts t opts')
   \<and> (currentPoll t = Some p \<and> teacher_tally t opt = Number n \<longrightarrow>
        teacher_tally (teacher_counts t opts) opt = Number (n + count_list opts opt))
   \<and> (currentPoll t = Some p \<and> responses p = Map.empty \<and> opt \<notin> set inherited
        \<and> distinct (map fst evs) \<longrightarrow>
        teacher_tally (teacher_counts t (map snd evs)) opt = Number (spec_tally evs opt))
   \<and> (currentPoll t = Some p \<and> responses p = Map.empty \<and> opt \<in> set inherited \<longrightarrow>
        teacher_tally (teacher_counts t opts) opt = NotANumber)"
proof (intro conjI impI)
  assume "mset opts = mset opts'"
  then show "teacher_counts t opts = teacher_counts t opts'"
    by (rule teacher_counts_mset)
next
  assume "currentPoll t = Some p \<and> teacher_tally t opt = Number n"
  then show "teacher_tally (teacher_counts t opts) opt = Number (n + count_list opts opt)"
    by (simp add: teacher_tally_counts plus_one_pow_Number)
next
  assume a: "currentPoll t = Some p \<and> responses p = Map.empty \<and> opt \<notin> set inherited
        \<and> distinct (map fst evs)"
  then have "teacher_tally t opt = Number 0"
    by (simp add: teacher_tally_def votes_shown_def or_zero_def)
  with a show "teacher_tally (teacher_counts t (map snd evs)) opt = Number (spec_tally evs opt)"
    by (simp add: teacher_tally_counts plus_one_pow_Number spec_tally_distinct)
next
  assume a: "currentPoll t = Some p \<and> responses p = Map.empty \<and> opt \<in> set inherited"
  then have "teacher_tally t opt = NotANumber"
    by (simp add: teacher_tally_def votes_shown_def or_zero_def)
  with a show "teacher_tally (teacher_counts t opts) opt = NotANumber"
    by (simp add: teacher_tally_counts plus_one_pow_NotANumber)
qed

theorem tally_counts_every_response_witness:
  "mset [''A'', ''B'', ''B''] = mset [''B'', ''A'', ''B'']
   \<and> teacher_counts teacher_with_poll [''A'', ''B'', ''B'']
       = teacher_counts teacher_with_poll [''B'', ''A'', ''B'']
   \<and> teacher_tally teacher_with_poll ''B'' = Number 0
   \<and> teacher_tally (teacher_counts teacher_with_poll [''A'', ''B'', ''B'']) ''B'' = Number 2
   \<and> ''B'' \<notin> set inherited
   \<and> distinct (map fst [(''Student_1'', ''A''), (''Student_2'', ''B'')])
   \<and> teacher_tally (teacher_counts teacher_with_poll
        (map snd [(''Student_1'', ''A''), (''Student_2'', ''B'')])) ''B''
       = Number (spec_tally [(''Student_1'', ''A''), (''Student_2'', ''B'')] ''B'')
   \<and> spec_tally [(''Student_1'', ''A''), (''Student_2'', ''B'')] ''B'' = 1
   \<and> ''toString'' \<in> set inherited
   \<and> teacher_tally (teacher_counts teacher_with_poll [''toString'', ''A'']) ''toString''
       = NotANumber"
proof -
  note inst = tally_counts_every_response
        [of "[''A'', ''B'', ''B'']" "[''B'', ''A'', ''B'']" teacher_with_poll
            "\<lparr>question = ''Q1'', options = [''A'', ''B''], responses = Map.empty\<rparr>"
            "''B''" 0 "[(''Student_1'', ''A''), (''Student_2'', ''B'')]"]
  note inst' = tally_counts_every_response
        [of "[''toString'', ''A'']" _ teacher_with_poll
            "\<lparr>question = ''Q1'', options = [''A'', ''B''], responses = Map.empty\<rparr>"
            "''toString''"]
  have m: "mset [''A'', ''B'', ''B''] = mset [''B'', ''A'', ''B'']"
    by simp
  have d: "distinct (map fst [(''Student_1'', ''A''), (''Student_2'', ''B'')])"
    by simp
  have b: "''B'' \<notin> set inherited"
    by (simp add: inherited_def)
  have i: "''toString'' \<in> set inherited"
    by (simp add: inherited_def)
  have z: "teacher_tally teacher_with_poll ''B'' = Number 0"
    using b by (rule teacher_with_poll_tally)
  have s: "spec_tally [(''Student_1'', ''A''), (''Student_2'', ''B'')] ''B'' = 1"
    by (simp add: spec_tally_def spec_votes_def)
  have 1: "teacher_counts teacher_with_poll [''A'', ''B'', ''B'']
             = teacher_counts teacher_with_poll [''B'', ''A'', ''B'']"
    using inst m by blast
  have "teacher_tally (teacher_counts teacher_with_poll [''A'', ''B'', ''B'']) ''B''
          = Number (0 + count_list [''A'', ''B'', ''B''] ''B'')"
    using inst teacher_with_poll_open z by blast
  then have 2: "teacher_tally (teacher_counts teacher_with_poll [''A'', ''B'', ''B'']) ''B''
          = Number 2"
    by simp
  have 3: "teacher_tally (teacher_counts teacher_with_poll
        (map snd [(''Student_1'', ''A''), (''Student_2'', ''B'')])) ''B''
       = Number (spec_tally [(''Student_1'', ''A''), (''Student_2'', ''B'')] ''B'')"
    using inst teacher_with_poll_open b d by simp
  have 4: "teacher_tally (teacher_counts teacher_with_poll [''toString'', ''A'']) ''toString''
       = NotANumber"
    using inst' teacher_with_poll_open i by simp
  from m 1 z 2 b d 3 s i 4 show ?thesis by (intro conjI)
qed

section \<open>The scenario of the two students\<close>

lemmas hook_defs = sendMessage_def joinRoom_def emit_def outbox_def on_connect_def mount_def
  initial_hook_def

lemmas scenario_defs = poll_scenario_def classroom_start_def teacher_does_def
  student1_does_def student2_does_def deliver_to_teacher_def deliver_to_student_def
  emitted_since_def or_zero_def inherited_def connected_teacher_def
  connected_student_def initial_teacher_def initial_student_def setPollQuestion_def
  setPollOptions_def createPoll_def closePoll_def setSelectedPollOption_def
  submitPollResponse_def on_poll_response_def on_poll_created_def on_poll_closed_def
  truthy_def trim_def whitespace_def votes_shown_def teacher_tally_def

lemma scenario_tally_A: "teacher_tally (teacher poll_scenario) ''A'' = Number 1"
  by (simp add: scenario_defs hook_defs Let_def)

lemma scenario_tally_B: "teacher_tally (teacher poll_scenario) ''B'' = Number 1"
  by (simp add: scenario_defs hook_defs Let_def)

lemma scenario_poll:
  "map_option question (currentPoll (teacher poll_scenario)) = Some ''Q1''
   \<and> map_option options (currentPoll (teacher poll_scenario)) = Some [''A'', ''B'']"
  by (simp add: scenario_defs hook_defs Let_def)

lemma scenario_student1: "outbox (hook (student1 poll_scenario)) = [(''poll-response'', PollResponse ''A'')]"
  by (simp add: scenario_defs hook_defs Let_def)

lemma scenario_student2: "outbox (hook (student2 poll_scenario)) = [(''poll-response'', PollResponse ''B'')]"
  by (simp add: scenario_defs hook_defs Let_def)

lemma scenario_close:
  "currentPoll (closePoll (teacher poll_scenario)) = None
   \<and> emitted_since (hook (teacher poll_scenario)) (hook (closePoll (teacher poll_scenario)))
       = [(''poll-closed'', Empty)]"
  by (simp add: scenario_defs hook_defs Let_def)

text \<open>
  Claim C3, as stated: after the first student votes A, the second votes B and the first
  submits B, the tally at close is A:0, B:2. In the code the tally is another one.
\<close>

theorem scenario_tally_counterexample:
  "\<not> (teacher_tally (teacher poll_scenario) ''A'' = Number 0
      \<and> teacher_tally (teacher poll_scenario) ''B'' = Number 2)"
  by (simp add: scenario_tally_A)

text \<open>
  Claim C3, amended. In that scenario the first student's second submission sends
  nothing, since \<open>hasVoted\<close> is set: each student has emitted one response, the
  teacher's poll is Q1 with the options A and B, and the tally the teacher sees when
  closing is A:1, B:1. Closing emits \<open>poll-closed\<close> with an empty payload and drops the
  poll.
\<close>

theorem scenario_first_vote_stands:
  "teacher_tally (teacher poll_scenario) ''A'' = Number 1
   \<and> teacher_tally (teacher poll_scenario) ''B'' = Number 1
   \<and> map_option question (currentPoll (teacher poll_scenario)) = Some ''Q1''
   \<and> map_option options (currentPoll (teacher poll_scenario)) = Some [''A'', ''B'']
   \<and> outbox (hook (student1 poll_scenario)) = [(''poll-response'', PollResponse ''A'')]
   \<and> outbox (hook (student2 poll_scenario)) = [(''poll-response'', PollResponse ''B'')]
   \<and> currentPoll (closePoll (teacher poll_scenario)) = None
   \<and> emitted_since (hook (teacher poll_scenario)) (hook (closePoll (teacher poll_scenario)))
       = [(''poll-closed'', Empty)]"
  using scenario_tally_A scenario_tally_B scenario_poll scenario_student1 scenario_student2
    scenario_close
  by (intro conjI) simp_all

section \<open>Votes after the poll is closed\<close>

text \<open>
  Claim C4. Closing the poll sets \<open>currentPoll\<close> to null, and while it is null the
  \<open>poll-response\<close> handler changes nothing: whatever responses arrive after the
  close, the teacher's state, the tally it shows and the messages it has emitted
  (\<open>poll-closed\<close> included) stay as they were.
\<close>

theorem vote_after_close_ignored:
  "currentPoll (closePoll t) = None
   \<and> on_poll_response opt (closePoll t) = closePoll t
   \<and> teacher_counts (closePoll t) opts = closePoll t
   \<and> teacher_tally (teacher_counts (closePoll t) opts) opt' = teacher_tally (closePoll t) opt'
   \<and> (currentPoll t' = None \<longrightarrow>
        on_poll_response opt t' = t' \<and> teacher_counts t' opts = t')"
proof -
  have c: "currentPoll (closePoll t) = None"
    by (simp add: closePoll_def)
  show ?thesis
    using c by (simp add: on_poll_response_closed teacher_counts_closed)
qed

theorem vote_after_close_ignored_witness:
  "currentPoll (closePoll teacher_with_poll) = None
   \<and> teacher_counts (closePoll teacher_with_poll) [''A'', ''B''] = closePoll teacher_with_poll
   \<and> currentPoll initial_teacher = None
   \<and> on_poll_response ''A'' initial_teacher = initial_teacher"
proof -
  have n: "currentPoll initial_teacher = None"
    by (simp add: initial_teacher_def)
  show ?thesis
    using n vote_after_close_ignored [of teacher_with_poll "''A''" "[''A'', ''B'']" "''A''" initial_teacher]
    by simp
qed

section \<open>Presence\<close>

lemma teacher_presence_last:
  "evs \<noteq> [] \<Longrightarrow> connectedStudents (teacher_presence evs t) = carried (last evs)"
  unfolding teacher_presence_def
proof (induction evs arbitrary: t)
  case Nil
  then show ?case by simp
next
  case (Cons e evs)
  show ?case
  proof (cases evs)
    case Nil
    then show ?thesis
      by (cases e) (simp_all add: on_student_joined_def on_student_left_def)
  next
    case (Cons e' evs')
    then show ?thesis using Cons.IH by simp
  qed
qed

text \<open>
  Claim C2, as stated: the count the teacher sees equals the number of distinct
  participants that joined and did not leave, and is derived from the join and leave
  events. In the code the handlers display the number the event carries, whatever it is:
  after one join whose event carries 3, the teacher shows 3 with one participant present.
\<close>

theorem presence_counter_counterexample:
  "connectedStudents (teacher_presence [Joined ''Student_1'' 3] initial_teacher) = 3
   \<and> int (length (spec_members [Joined ''Student_1'' 3])) = 1
   \<and> connectedStudents (teacher_presence [Joined ''Student_1'' 3] initial_teacher)
       \<noteq> int (length (spec_members [Joined ''Student_1'' 3]))"
  by (simp add: teacher_presence_def on_student_joined_def spec_members_def)

text \<open>
  Claim C2, amended. The count the teacher shows is the number carried by the last
  \<open>student-joined\<close> or \<open>student-left\<close> event delivered, and the value it had before
  when none was delivered; the component counts nothing itself. So it equals the number
  of distinct participants that joined and did not leave exactly when the last event
  carries that number.
\<close>

theorem presence_shows_carried_count:
  "(evs = [] \<longrightarrow> connectedStudents (teacher_presence evs t) = connectedStudents t)
   \<and> (evs \<noteq> [] \<longrightarrow> connectedStudents (teacher_presence evs t) = carried (last evs))
   \<and> (evs \<noteq> [] \<longrightarrow>
        (connectedStudents (teacher_presence evs t) = int (length (spec_members evs))
         \<longleftrightarrow> carried (last evs) = int (length (spec_members evs))))"
  by (simp add: teacher_presence_last) (simp add: teacher_presence_def)

theorem presence_shows_carried_count_witness:
  "connectedStudents (teacher_presence ([] :: string presence list) initial_teacher) = 0
   \<and> [Joined ''Student_1'' 1, Joined ''Student_2'' 2, Left ''Student_1'' 1] \<noteq> []
   \<and> spec_members [Joined ''Student_1'' 1, Joined ''Student_2'' 2, Left ''Student_1'' 1]
       = [''Student_2'']
   \<and> connectedStudents
        (teacher_presence [Joined ''Student_1'' 1, Joined ''Student_2'' 2, Left ''Student_1'' 1]
           initial_teacher) = 1"
proof -
  have m: "spec_members [Joined ''Student_1'' 1, Joined ''Student_2'' 2, Left ''Student_1'' 1]
             = [''Student_2'']"
    by (simp add: spec_members_def)
  have z: "connectedStudents initial_teacher = 0"
    by (simp add: initial_teacher_def)
  show ?thesis
    using m z
      presence_shows_carried_count [of "[] :: string presence list" initial_teacher]
      presence_shows_carried_count
        [of "[Joined ''Student_1'' 1, Joined ''Student_2'' 2, Left ''Student_1'' 1]" initial_teacher]
    by simp
qed

section \<open>Chat\<close>

lemma truthy_trim: "truthy (trim s) \<longleftrightarrow> (\<exists>c\<in>set s. \<not> whitespace c)"
proof -
  have "truthy (trim s) \<longleftrightarrow> (\<exists>c\<in>set (dropWhile whitespace s). \<not> whitespace c)"
    by (simp add: truthy_def trim_def dropWhile_eq_Nil_conv)
  also have "\<dots> \<longleftrightarrow> (\<exists>c\<in>set s. \<not> whitespace c)"
  proof
    assume "\<exists>c\<in>set (dropWhile whitespace s). \<not> whitespace c"
    then show "\<exists>c\<in>set s. \<not> whitespace c"
      by (blast dest: set_dropWhileD)
  next
    assume "\<exists>c\<in>set s. \<not> whitespace c"
    then have ne: "dropWhile whitespace s \<noteq> []"
      by (simp add: dropWhile_eq_Nil_conv)
    then have "\<not> whitespace (hd (dropWhile whitespace s))"
      by (rule hd_dropWhile)
    moreover have "hd (dropWhile whitespace s) \<in> set (dropWhile whitespace s)"
      using ne by simp
    ultimately show "\<exists>c\<in>set (dropWhile whitespace s). \<not> whitespace c"
      by blast
  qed
  finally show ?thesis .
qed

lemma sendChatMessage_nonblank:
  "\<exists>ch\<in>set (newMessage c). \<not> whitespace ch \<Longrightarrow>
   sendChatMessage name now date c =
     c\<lparr>hook := sendMessage ''chat-message''
                 (ChatMessage \<lparr>msg_id = toString now, msg_text = newMessage c,
                               sender = name, timestamp = date\<rparr>) (hook c),
       messages := messages c @ [\<lparr>msg_id = toString now, msg_text = newMessage c,
                                  sender = name, timestamp = date\<rparr>],
       newMessage := ''''\<rparr>"
  by (simp add: sendChatMessage_def truthy_trim Let_def)

lemma sendChatMessage_blank:
  "\<forall>ch\<in>set (newMessage c). whitespace ch \<Longrightarrow> sendChatMessage name now date c = c"
  by (simp add: sendChatMessage_def truthy_trim)

lemma student_page_run_snoc:
  "student_page_run (es @ [e]) = student_page_step e (student_page_run es)"
  by (simp add: student_page_run_def)

lemma student_page_step_in_class:
  assumes "isInClass s \<longrightarrow> sessionActive s"
  shows "isInClass (student_page_step e s) \<longrightarrow> sessionActive (student_page_step e s)"
proof (cases e)
  case (Receive ev)
  with assms show ?thesis
    by (cases ev)
       (simp_all add: student_page_step_def on_session_started_def on_session_ended_def
          on_chat_message_def on_poll_created_def on_poll_closed_def)
next
  case (FetchRecordings response)
  with assms show ?thesis
    by (cases response) (simp_all add: student_page_step_def fetchRecordings_def)
qed (use assms in \<open>simp_all add: student_page_step_def joinClass_def leaveClass_def
       setNewMessage_def student_sendChatMessage_def sendChatMessage_def Let_def
       setSelectedPollOption_def submitPollResponse_def setConnectionQuality_def\<close>)

lemma student_in_class_in_session:
  "isInClass (student_page_run es) \<longrightarrow> sessionActive (student_page_run es)"
proof (induction es rule: rev_induct)
  case Nil
  show ?case
    by (simp add: student_page_run_def mounted_student_def initial_student_def)
next
  case (snoc e es)
  then show ?case
    unfolding student_page_run_snoc by (rule student_page_step_in_class)
qed

lemma teacher_typing_blank_state:
  "teacher_typing_blank = connected_teacher\<lparr>newMessage := ''  ''\<rparr>"
  by (simp add: teacher_typing_blank_def teacher_page_run_def teacher_page_step_def
        mounted_teacher_def connected_teacher_def initial_teacher_def setNewMessage_def
        on_connect_def mount_def initial_hook_def)

lemma student_waiting_state: "student_waiting = connected_student"
  by (simp add: student_waiting_def student_page_run_def student_page_step_def
        mounted_student_def connected_student_def initial_student_def
        on_connect_def mount_def initial_hook_def)

text \<open>
  Claim C7, as stated: the teacher's chat succeeds at any time and appends the text with
  no inspection of its content, and a student's chat outside a session is rejected with
  InvalidState. In the code the teacher's text of two spaces is dropped: the Send button
  is enabled, and using it appends nothing and sends nothing. And the waiting student's
  Send button, being disabled, reports no error at all.
\<close>

theorem teacher_blank_chat_dropped_counterexample:
  "newMessage teacher_typing_blank = ''  ''
   \<and> teacher_enabled (SendChat 5 6) teacher_typing_blank
   \<and> teacher_page_step (SendChat 5 6) teacher_typing_blank = teacher_typing_blank
   \<and> messages (teacher_page_step (SendChat 5 6) teacher_typing_blank) = []
   \<and> outbox (hook (teacher_page_step (SendChat 5 6) teacher_typing_blank)) = []
   \<and> error (hook (student_page_step (SendChatMessage ''Student_1'' 5 6) student_waiting)) = ''''"
  by (simp add: teacher_typing_blank_state student_waiting_state teacher_page_step_def
        student_page_step_def teacher_sendChatMessage_def sendChatMessage_def
        connected_teacher_def connected_student_def initial_teacher_def initial_student_def
        truthy_def trim_def whitespace_def outbox_def on_connect_def mount_def
        initial_hook_def)

text \<open>
  Claim C7, amended. A student can send chat only while in class: while not in class
  the chat controls are disabled, so nothing is appended or sent (and nothing is
  reported); through the page a student is in class only while the session is active,
  so after any sequence of events a student whose session is not active sends no chat.
  In class, a text with a character that is not whitespace is appended as typed to the
  student's own messages and handed to \<open>sendMessage\<close> as \<open>chat-message\<close>. The teacher's
  chat controls are never disabled, and the teacher's text is treated alike. For both,
  a text whose characters are all whitespace (the empty text included) is dropped:
  nothing is appended, sent or reported.
\<close>

theorem chat_needs_class_and_text:
  "(\<not> isInClass s \<longrightarrow> student_page_step (SendChatMessage studentName now date) s = s)
   \<and> (\<not> sessionActive (student_page_run es) \<longrightarrow>
        student_page_step (SendChatMessage studentName now date) (student_page_run es)
          = student_page_run es)
   \<and> (isInClass s \<and> (\<exists>ch\<in>set (newMessage s). \<not> whitespace ch) \<longrightarrow>
        student_page_step (SendChatMessage studentName now date) s =
          s\<lparr>hook := sendMessage ''chat-message''
                      (ChatMessage \<lparr>msg_id = toString now, msg_text = newMessage s,
                                    sender = studentName, timestamp = date\<rparr>) (hook s),
            messages := messages s @ [\<lparr>msg_id = toString now, msg_text = newMessage s,
                                       sender = studentName, timestamp = date\<rparr>],
            newMessage := ''''\<rparr>)
   \<and> ((\<forall>ch\<in>set (newMessage s). whitespace ch) \<longrightarrow>
        student_page_step (SendChatMessage studentName now date) s = s)
   \<and> teacher_enabled (SendChat now date) t
   \<and> ((\<exists>ch\<in>set (newMessage t). \<not> whitespace ch) \<longrightarrow>
        teacher_page_step (SendChat now date) t =
          t\<lparr>hook := sendMessage ''chat-message''
                      (ChatMessage \<lparr>msg_id = toString now, msg_text = newMessage t,
                                    sender = ''Teacher'', timestamp = date\<rparr>) (hook t),
            messages := messages t @ [\<lparr>msg_id = toString now, msg_text = newMessage t,
                                       sender = ''Teacher'', timestamp = date\<rparr>],
            newMessage := ''''\<rparr>)
   \<and> ((\<forall>ch\<in>set (newMessage t). whitespace ch) \<longrightarrow>
        teacher_page_step (SendChat now date) t = t)"
proof (intro conjI impI)
  assume "\<not> isInClass s"
  then show "student_page_step (SendChatMessage studentName now date) s = s"
    by (simp add: student_page_step_def)
next
  assume "\<not> sessionActive (student_page_run es)"
  with student_in_class_in_session [of es] have "\<not> isInClass (student_page_run es)"
    by blast
  then show "student_page_step (SendChatMessage studentName now date) (student_page_run es)
          = student_page_run es"
    by (simp add: student_page_step_def)
next
  assume "isInClass s \<and> (\<exists>ch\<in>set (newMessage s). \<not> whitespace ch)"
  then show "student_page_step (SendChatMessage studentName now date) s =
          s\<lparr>hook := sendMessage ''chat-message''
                      (ChatMessage \<lparr>msg_id = toString now, msg_text = newMessage s,
                                    sender = studentName, timestamp = date\<rparr>) (hook s),
            messages := messages s @ [\<lparr>msg_id = toString now, msg_text = newMessage s,
                                       sender = studentName, timestamp = date\<rparr>],
            newMessage := ''''\<rparr>"
    by (simp add: student_page_step_def student_sendChatMessage_def sendChatMessage_nonblank)
next
  assume "\<forall>ch\<in>set (newMessage s). whitespace ch"
  then show "student_page_step (SendChatMessage studentName now date) s = s"
    by (simp add: student_page_step_def student_sendChatMessage_def sendChatMessage_blank)
next
  show "teacher_enabled (SendChat now date) t"
    by simp
next
  assume "\<exists>ch\<in>set (newMessage t). \<not> whitespace ch"
  then show "teacher_page_step (SendChat now date) t =
          t\<lparr>hook := sendMessage ''chat-message''
                      (ChatMessage \<lparr>msg_id = toString now, msg_text = newMessage t,
                                    sender = ''Teacher'', timestamp = date\<rparr>) (hook t),
            messages := messages t @ [\<lparr>msg_id = toString now, msg_text = newMessage t,
                                       sender = ''Teacher'', timestamp = date\<rparr>],
            newMessage := ''''\<rparr>"
    by (simp add: teacher_page_step_def teacher_sendChatMessage_def sendChatMessage_nonblank)
next
  assume "\<forall>ch\<in>set (newMessage t). whitespace ch"
  then show "teacher_page_step (SendChat now date) t = t"
    by (simp add: teacher_page_step_def teacher_sendChatMessage_def sendChatMessage_blank)
qed

theorem chat_needs_class_and_text_witness:
  "\<not> isInClass student_waiting
   \<and> \<not> sessionActive (student_page_run [HookEvent Connect])
   \<and> student_page_step (SendChatMessage ''Student_1'' 5 6) student_waiting = student_waiting
   \<and> student_page_step (SendChatMessage ''Student_1'' 5 6) (student_page_run [HookEvent Connect])
       = student_page_run [HookEvent Connect]
   \<and> isInClass student_in_class
   \<and> newMessage student_in_class = '' hi ''
   \<and> messages (student_page_step (SendChatMessage ''Student_1'' 5 6) student_in_class)
       = [\<lparr>msg_id = toString 5, msg_text = '' hi '', sender = ''Student_1'', timestamp = 6\<rparr>]
   \<and> student_page_step (SendChatMessage ''Student_1'' 5 6)
        (student_in_class\<lparr>newMessage := '' ''\<rparr>) = student_in_class\<lparr>newMessage := '' ''\<rparr>
   \<and> messages (teacher_page_step (SendChat 5 6) (connected_teacher\<lparr>newMessage := ''a b''\<rparr>))
       = [\<lparr>msg_id = toString 5, msg_text = ''a b'', sender = ''Teacher'', timestamp = 6\<rparr>]
   \<and> teacher_page_step (SendChat 5 6) teacher_typing_blank = teacher_typing_blank"
proof -
  note waiting = chat_needs_class_and_text
      [of student_waiting "''Student_1''" 5 6 "[HookEvent Connect]" teacher_typing_blank]
  note in_class = chat_needs_class_and_text
      [of student_in_class "''Student_1''" 5 6 _ "connected_teacher\<lparr>newMessage := ''a b''\<rparr>"]
  note blank = chat_needs_class_and_text
      [of "student_in_class\<lparr>newMessage := '' ''\<rparr>" "''Student_1''" 5 6]
  have w: "\<not> isInClass student_waiting"
    by (simp add: student_waiting_state connected_student_def initial_student_def)
  have r: "\<not> sessionActive (student_page_run [HookEvent Connect])"
    using student_waiting_state
    by (simp add: student_waiting_def connected_student_def initial_student_def)
  have c: "student_in_class =
      connected_student\<lparr>sessionActive := True, isInClass := True, newMessage := '' hi '',
        hook := sendMessage ''student-joined'' (StudentRef ''Student_1'' roomId)
                  (joinRoom roomId (on_connect (mount initial_hook)))\<rparr>"
    by (simp add: student_in_class_def student_page_run_def student_page_step_def
          mounted_student_def connected_student_def initial_student_def setNewMessage_def
          on_session_started_def joinClass_def on_connect_def mount_def initial_hook_def)
  have i: "isInClass student_in_class"
    by (simp add: c)
  have n: "newMessage student_in_class = '' hi ''"
    by (simp add: c)
  have 1: "student_page_step (SendChatMessage ''Student_1'' 5 6) student_waiting = student_waiting"
    using waiting w by blast
  have 2: "student_page_step (SendChatMessage ''Student_1'' 5 6) (student_page_run [HookEvent Connect])
       = student_page_run [HookEvent Connect]"
    using waiting r by blast
  have "\<exists>ch\<in>set (newMessage student_in_class). \<not> whitespace ch"
    unfolding n by (simp add: whitespace_def)
  with in_class i have "student_page_step (SendChatMessage ''Student_1'' 5 6) student_in_class =
          student_in_class\<lparr>hook := sendMessage ''chat-message''
                      (ChatMessage \<lparr>msg_id = toString 5, msg_text = newMessage student_in_class,
                                    sender = ''Student_1'', timestamp = 6\<rparr>) (hook student_in_class),
            messages := messages student_in_class @ [\<lparr>msg_id = toString 5,
                msg_text = newMessage student_in_class, sender = ''Student_1'', timestamp = 6\<rparr>],
            newMessage := ''''\<rparr>"
    by blast
  then have 3: "messages (student_page_step (SendChatMessage ''Student_1'' 5 6) student_in_class)
       = [\<lparr>msg_id = toString 5, msg_text = '' hi '', sender = ''Student_1'', timestamp = 6\<rparr>]"
    by (simp add: c connected_student_def initial_student_def)
  have "\<forall>ch\<in>set (newMessage (student_in_class\<lparr>newMessage := '' ''\<rparr>)). whitespace ch"
    by (simp add: whitespace_def)
  with blank have 4: "student_page_step (SendChatMessage ''Student_1'' 5 6)
        (student_in_class\<lparr>newMessage := '' ''\<rparr>) = student_in_class\<lparr>newMessage := '' ''\<rparr>"
    by blast
  have "\<exists>ch\<in>set (newMessage (connected_teacher\<lparr>newMessage := ''a b''\<rparr>)). \<not> whitespace ch"
    by (simp add: whitespace_def)
  with in_class have "teacher_page_step (SendChat 5 6) (connected_teacher\<lparr>newMessage := ''a b''\<rparr>) =
          (connected_teacher\<lparr>newMessage := ''a b''\<rparr>)\<lparr>hook := sendMessage ''chat-message''
                      (ChatMessage \<lparr>msg_id = toString 5,
                         msg_text = newMessage (connected_teacher\<lparr>newMessage := ''a b''\<rparr>),
                         sender = ''Teacher'', timestamp = 6\<rparr>)
                      (hook (connected_teacher\<lparr>newMessage := ''a b''\<rparr>)),
            messages := messages (connected_teacher\<lparr>newMessage := ''a b''\<rparr>) @ [\<lparr>msg_id = toString 5,
                msg_text = newMessage (connected_teacher\<lparr>newMessage := ''a b''\<rparr>),
                sender = ''Teacher'', timestamp = 6\<rparr>],
            newMessage := ''''\<rparr>"
    by blast
  then have 5: "messages (teacher_page_step (SendChat 5 6) (connected_teacher\<lparr>newMessage := ''a b''\<rparr>))
       = [\<lparr>msg_id = toString 5, msg_text = ''a b'', sender = ''Teacher'', timestamp = 6\<rparr>]"
    by (simp add: connected_teacher_def initial_teacher_def)
  have "\<forall>ch\<in>set (newMessage teacher_typing_blank). whitespace ch"
    by (simp add: teacher_typing_blank_state whitespace_def)
  with waiting have 6: "teacher_page_step (SendChat 5 6) teacher_typing_blank = teacher_typing_blank"
    by blast
  from w r 1 2 i n 3 4 5 6 show ?thesis by (intro conjI)
qed

section \<open>Creating a poll\<close>

lemma teacher_page_run_snoc:
  "teacher_page_run (es @ [e]) = teacher_page_step e (teacher_page_run es)"
  by (simp add: teacher_page_run_def)

lemma teacher_page_step_form_blank:
  assumes "currentPoll t \<noteq> None \<longrightarrow> pollQuestion t = ''''"
  shows "currentPoll (teacher_page_step e t) \<noteq> None \<longrightarrow> pollQuestion (teacher_page_step e t) = ''''"
proof (cases e)
  case (TeacherReceive ev)
  with assms show ?thesis
    by (cases ev)
       (auto simp: teacher_page_step_def on_student_joined_def on_student_left_def
          on_chat_message_def on_poll_response_def split: option.splits)
next
  case CreatePoll
  with assms show ?thesis
    by (simp add: teacher_page_step_def createPoll_def Let_def)
qed (use assms in \<open>simp_all add: teacher_page_step_def startSession_def endSession_def
       toggleMicrophone_def startRecording_def stopRecording_def setNewMessage_def
       teacher_sendChatMessage_def sendChatMessage_def Let_def setPollQuestion_def
       setPollOptions_def closePoll_def\<close>)

lemma teacher_form_blank_while_poll:
  "currentPoll (teacher_page_run es) \<noteq> None \<longrightarrow> pollQuestion (teacher_page_run es) = ''''"
proof (induction es rule: rev_induct)
  case Nil
  show ?case
    by (simp add: teacher_page_run_def mounted_teacher_def initial_teacher_def)
next
  case (snoc e es)
  then show ?case
    unfolding teacher_page_run_snoc by (rule teacher_page_step_form_blank)
qed

lemma teacher_typing_poll_state:
  "teacher_typing_poll =
     connected_teacher\<lparr>pollQuestion := ''Q2'', pollOptions := [''Yes'', '''', ''No'']\<rparr>"
  by (simp add: teacher_typing_poll_def teacher_page_run_def teacher_page_step_def
        mounted_teacher_def connected_teacher_def initial_teacher_def setPollQuestion_def
        setPollOptions_def on_connect_def mount_def initial_hook_def)

text \<open>
  Claim C8, as stated: creation requires every option to be non-empty and is otherwise
  rejected, producing no poll. In the code, with no poll open, the question Q2 and the
  option inputs Yes, an empty one and No, the Create Poll button is enabled and creates
  the poll Q2 with the options Yes and No.
\<close>

theorem blank_option_dropped_counterexample:
  "currentPoll teacher_typing_poll = None
   \<and> pollQuestion teacher_typing_poll = ''Q2''
   \<and> pollOptions teacher_typing_poll = [''Yes'', '''', ''No'']
   \<and> teacher_enabled CreatePoll teacher_typing_poll
   \<and> currentPoll (teacher_page_step CreatePoll teacher_typing_poll)
       = Some \<lparr>question = ''Q2'', options = [''Yes'', ''No''], responses = Map.empty\<rparr>"
  by (simp add: teacher_typing_poll_state teacher_page_step_def createPoll_def
        connected_teacher_def initial_teacher_def truthy_def trim_def whitespace_def Let_def)

lemma emitted_since_sendMessage:
  "connected h \<Longrightarrow> emitted_since h (sendMessage event data h) = [(event, data)]"
  by (cases "socket h")
     (auto simp: connected_def sendMessage_def emitted_since_def outbox_def emit_def)

text \<open>
  Claim C8, amended. The poll form is on the page only while no poll is open, so Create
  Poll is never used on an open poll and nothing is force-closed: while a poll is open
  the button does nothing, and after any sequence of events \<open>createPoll\<close> itself
  changes nothing on a page with a poll open. The teacher ends a poll with Close Poll,
  which emits \<open>poll-closed\<close> with an empty payload and drops the poll. With no poll open,
  \<open>createPoll\<close> creates a poll exactly when the question is not empty and at least two
  of the option inputs have a character that is not whitespace; the other inputs are
  left out of the poll, not a cause of rejection. The new poll has the question, the
  remaining options in order and no responses, and the one message handed to
  \<open>sendMessage\<close> is \<open>poll-created\<close> with the new poll. Otherwise nothing changes and
  nothing is reported.
\<close>

theorem createPoll_two_nonblank_options:
  "(truthy (trim opt) \<longleftrightarrow> (\<exists>ch\<in>set opt. \<not> whitespace ch))
   \<and> (currentPoll t \<noteq> None \<longrightarrow>
        \<not> teacher_enabled CreatePoll t \<and> teacher_page_step CreatePoll t = t)
   \<and> (currentPoll (teacher_page_run es) \<noteq> None \<longrightarrow>
        createPoll (teacher_page_run es) = teacher_page_run es)
   \<and> (currentPoll t \<noteq> None \<longrightarrow>
        teacher_page_step ClosePoll t =
          t\<lparr>hook := sendMessage ''poll-closed'' Empty (hook t), currentPoll := None\<rparr>)
   \<and> (currentPoll t = None \<and> truthy (pollQuestion t)
        \<and> 2 \<le> length (filter (\<lambda>opt. truthy (trim opt)) (pollOptions t)) \<longrightarrow>
        (\<exists>poll.
           poll = \<lparr>question = pollQuestion t,
                   options = filter (\<lambda>opt. truthy (trim opt)) (pollOptions t),
                   responses = Map.empty\<rparr>
           \<and> currentPoll (teacher_page_step CreatePoll t) = Some poll
           \<and> hook (teacher_page_step CreatePoll t)
               = sendMessage ''poll-created'' (PollCreated poll) (hook t)
           \<and> (connected (hook t) \<longrightarrow>
                emitted_since (hook t) (hook (teacher_page_step CreatePoll t))
                  = [(''poll-created'', PollCreated poll)])
           \<and> 2 \<le> length (options poll)
           \<and> (\<forall>o'\<in>set (options poll). truthy (trim o'))))
   \<and> (\<not> (truthy (pollQuestion t)
            \<and> 2 \<le> length (filter (\<lambda>opt. truthy (trim opt)) (pollOptions t))) \<longrightarrow>
        teacher_page_step CreatePoll t = t)"
proof (intro conjI impI)
  show "truthy (trim opt) \<longleftrightarrow> (\<exists>ch\<in>set opt. \<not> whitespace ch)"
    by (rule truthy_trim)
next
  assume "currentPoll t \<noteq> None"
  then show "\<not> teacher_enabled CreatePoll t"
    by simp
next
  assume "currentPoll t \<noteq> None"
  then show "teacher_page_step CreatePoll t = t"
    by (auto simp: teacher_page_step_def)
next
  assume "currentPoll (teacher_page_run es) \<noteq> None"
  with teacher_form_blank_while_poll [of es] have "pollQuestion (teacher_page_run es) = ''''"
    by blast
  then show "createPoll (teacher_page_run es) = teacher_page_run es"
    by (simp add: createPoll_def truthy_def)
next
  assume "currentPoll t \<noteq> None"
  then show "teacher_page_step ClosePoll t =
          t\<lparr>hook := sendMessage ''poll-closed'' Empty (hook t), currentPoll := None\<rparr>"
    by (simp add: teacher_page_step_def closePoll_def)
next
  assume v: "currentPoll t = None \<and> truthy (pollQuestion t)
        \<and> 2 \<le> length (filter (\<lambda>opt. truthy (trim opt)) (pollOptions t))"
  let ?poll = "\<lparr>question = pollQuestion t,
                   options = filter (\<lambda>opt. truthy (trim opt)) (pollOptions t),
                   responses = Map.empty\<rparr>"
  have c: "teacher_page_step CreatePoll t =
             t\<lparr>currentPoll := Some ?poll,
               hook := sendMessage ''poll-created'' (PollCreated ?poll) (hook t),
               pollQuestion := '''', pollOptions := ['''', '''']\<rparr>"
    using v by (simp add: teacher_page_step_def createPoll_def Let_def)
  have "currentPoll (teacher_page_step CreatePoll t) = Some ?poll"
    by (simp add: c)
  moreover have "hook (teacher_page_step CreatePoll t)
      = sendMessage ''poll-created'' (PollCreated ?poll) (hook t)"
    by (simp add: c)
  moreover have "connected (hook t) \<longrightarrow>
      emitted_since (hook t) (hook (teacher_page_step CreatePoll t))
        = [(''poll-created'', PollCreated ?poll)]"
    by (simp add: c emitted_since_sendMessage)
  moreover have "2 \<le> length (options ?poll)"
    using v by simp
  moreover have "\<forall>o'\<in>set (options ?poll). truthy (trim o')"
    by simp
  ultimately show "\<exists>poll.
           poll = ?poll
           \<and> currentPoll (teacher_page_step CreatePoll t) = Some poll
           \<and> hook (teacher_page_step CreatePoll t)
               = sendMessage ''poll-created'' (PollCreated poll) (hook t)
           \<and> (connected (hook t) \<longrightarrow>
                emitted_since (hook t) (hook (teacher_page_step CreatePoll t))
                  = [(''poll-created'', PollCreated poll)])
           \<and> 2 \<le> length (options poll)
           \<and> (\<forall>o'\<in>set (options poll). truthy (trim o'))"
    by blast
next
  assume n: "\<not> (truthy (pollQuestion t)
            \<and> 2 \<le> length (filter (\<lambda>opt. truthy (trim opt)) (pollOptions t)))"
  then have "createPoll t = t"
    unfolding createPoll_def by (rule if_not_P)
  then show "teacher_page_step CreatePoll t = t"
    by (simp add: teacher_page_step_def)
qed

theorem createPoll_two_nonblank_options_witness:
  "currentPoll teacher_with_poll \<noteq> None
   \<and> teacher_page_step CreatePoll teacher_with_poll = teacher_with_poll
   \<and> currentPoll (teacher_page_run [TeacherHookEvent Connect, TypePollQuestion ''Q1'',
        TypePollOption 0 ''A'', TypePollOption 1 ''B'', CreatePoll]) \<noteq> None
   \<and> createPoll (teacher_page_run [TeacherHookEvent Connect, TypePollQuestion ''Q1'',
        TypePollOption 0 ''A'', TypePollOption 1 ''B'', CreatePoll])
       = teacher_page_run [TeacherHookEvent Connect, TypePollQuestion ''Q1'',
        TypePollOption 0 ''A'', TypePollOption 1 ''B'', CreatePoll]
   \<and> currentPoll (teacher_page_step ClosePoll teacher_with_poll) = None
   \<and> currentPoll teacher_typing_poll = None
   \<and> truthy (pollQuestion teacher_typing_poll)
   \<and> filter (\<lambda>opt. truthy (trim opt)) (pollOptions teacher_typing_poll) = [''Yes'', ''No'']
   \<and> connected (hook teacher_typing_poll)
   \<and> currentPoll (teacher_page_step CreatePoll teacher_typing_poll)
       = Some \<lparr>question = ''Q2'', options = [''Yes'', ''No''], responses = Map.empty\<rparr>
   \<and> emitted_since (hook teacher_typing_poll) (hook (teacher_page_step CreatePoll teacher_typing_poll))
       = [(''poll-created'',
           PollCreated \<lparr>question = ''Q2'', options = [''Yes'', ''No''], responses = Map.empty\<rparr>)]
   \<and> \<not> truthy (pollQuestion connected_teacher)
   \<and> teacher_page_step CreatePoll connected_teacher = connected_teacher"
proof -
  let ?es = "[TeacherHookEvent Connect, TypePollQuestion ''Q1'',
        TypePollOption 0 ''A'', TypePollOption 1 ''B'', CreatePoll]"
  note open_poll = createPoll_two_nonblank_options [of "''A''" teacher_with_poll ?es]
  note valid = createPoll_two_nonblank_options [of "''A''" teacher_typing_poll]
  note invalid = createPoll_two_nonblank_options [of "''A''" connected_teacher]
  have p: "currentPoll teacher_with_poll \<noteq> None"
    by (simp add: teacher_with_poll_open)
  have 1: "teacher_page_step CreatePoll teacher_with_poll = teacher_with_poll"
    using open_poll p by blast
  have r: "currentPoll (teacher_page_run ?es) \<noteq> None"
    by (simp add: teacher_page_run_def teacher_page_step_def mounted_teacher_def
          initial_teacher_def setPollQuestion_def setPollOptions_def createPoll_def
          truthy_def trim_def whitespace_def Let_def)
  have 2: "createPoll (teacher_page_run ?es) = teacher_page_run ?es"
    using open_poll r by blast
  have "teacher_page_step ClosePoll teacher_with_poll =
      teacher_with_poll\<lparr>hook := sendMessage ''poll-closed'' Empty (hook teacher_with_poll),
        currentPoll := None\<rparr>"
    using open_poll p by blast
  then have 3: "currentPoll (teacher_page_step ClosePoll teacher_with_poll) = None"
    by simp
  have n: "currentPoll teacher_typing_poll = None"
    by (simp add: teacher_typing_poll_state connected_teacher_def initial_teacher_def)
  have q: "pollQuestion teacher_typing_poll = ''Q2''"
    by (simp add: teacher_typing_poll_state)
  have o: "pollOptions teacher_typing_poll = [''Yes'', '''', ''No'']"
    by (simp add: teacher_typing_poll_state)
  have f: "filter (\<lambda>opt. truthy (trim opt)) (pollOptions teacher_typing_poll)
             = [''Yes'', ''No'']"
    unfolding o by (simp add: truthy_def trim_def whitespace_def)
  have h: "connected (hook teacher_typing_poll)"
    by (simp add: teacher_typing_poll_state connected_teacher_def initial_teacher_def
          connected_def on_connect_def mount_def initial_hook_def)
  have t: "truthy (pollQuestion teacher_typing_poll)"
    unfolding q by (simp add: truthy_def)
  have e: "\<not> truthy (pollQuestion connected_teacher)"
    by (simp add: connected_teacher_def initial_teacher_def truthy_def)
  have v: "currentPoll teacher_typing_poll = None \<and> truthy (pollQuestion teacher_typing_poll)
        \<and> 2 \<le> length (filter (\<lambda>opt. truthy (trim opt)) (pollOptions teacher_typing_poll))"
    using n t by (simp only: f) simp
  from valid v h have
    "currentPoll (teacher_page_step CreatePoll teacher_typing_poll)
       = Some \<lparr>question = pollQuestion teacher_typing_poll,
               options = filter (\<lambda>opt. truthy (trim opt)) (pollOptions teacher_typing_poll),
               responses = Map.empty\<rparr>
     \<and> emitted_since (hook teacher_typing_poll) (hook (teacher_page_step CreatePoll teacher_typing_poll))
       = [(''poll-created'',
           PollCreated \<lparr>question = pollQuestion teacher_typing_poll,
               options = filter (\<lambda>opt. truthy (trim opt)) (pollOptions teacher_typing_poll),
               responses = Map.empty\<rparr>)]"
    by blast
  then have c: "currentPoll (teacher_page_step CreatePoll teacher_typing_poll)
       = Some \<lparr>question = ''Q2'', options = [''Yes'', ''No''], responses = Map.empty\<rparr>
     \<and> emitted_since (hook teacher_typing_poll) (hook (teacher_page_step CreatePoll teacher_typing_poll))
       = [(''poll-created'',
           PollCreated \<lparr>question = ''Q2'', options = [''Yes'', ''No''], responses = Map.empty\<rparr>)]"
    unfolding q f .
  from invalid e have i: "teacher_page_step CreatePoll connected_teacher = connected_teacher"
    by blast
  from p 1 r 2 3 n t f h c e i show ?thesis
    by (intro conjI) blast+
qed

section \<open>One vote for each poll\<close>

lemma votes_sent_sendMessage:
  "votes_sent (outbox (sendMessage event data h))
     \<le> votes_sent (outbox h) + (if event = ''poll-response'' then 1 else 0)"
  by (cases "socket h") (auto simp: sendMessage_def outbox_def emit_def votes_sent_def)

lemma votes_sent_other:
  "event \<noteq> ''poll-response'' \<Longrightarrow>
   votes_sent (outbox (sendMessage event data h)) = votes_sent (outbox h)"
  by (cases "socket h") (auto simp: sendMessage_def outbox_def emit_def votes_sent_def)

lemma votes_sent_joinRoom: "votes_sent (outbox (joinRoom r h)) = votes_sent (outbox h)"
  by (cases "socket h") (auto simp: joinRoom_def outbox_def emit_def votes_sent_def)

lemma outbox_hook_step: "outbox (hook_step e h) = outbox h"
  by (cases e; cases "socket h")
     (auto simp: outbox_def on_connect_def on_connect_error_def on_disconnect_def
                 on_reconnect_def on_reconnect_error_def connect_def Let_def)

lemma budget_step:
  assumes "\<not> poll_boundary e"
  shows "budget (student_step e s) \<le> budget s"
proof (cases e)
  case (Receive ev)
  with assms show ?thesis
    by (cases ev)
       (auto simp: budget_def on_session_started_def on_session_ended_def on_chat_message_def)
next
  case (HookEvent he)
  then show ?thesis by (simp add: budget_def outbox_hook_step)
next
  case (JoinClass n)
  then show ?thesis
    by (simp add: budget_def joinClass_def votes_sent_other votes_sent_joinRoom)
next
  case (LeaveClass n)
  then show ?thesis by (simp add: budget_def leaveClass_def votes_sent_other)
next
  case (SetNewMessage v)
  then show ?thesis by (simp add: budget_def setNewMessage_def)
next
  case (SendChatMessage n now date)
  then show ?thesis
    by (simp add: budget_def student_sendChatMessage_def sendChatMessage_def Let_def
          votes_sent_other)
next
  case (SetSelectedPollOption v)
  then show ?thesis by (simp add: budget_def setSelectedPollOption_def)
next
  case SubmitPollResponse
  have "votes_sent (outbox (sendMessage ''poll-response'' d (hook s)))
          \<le> Suc (votes_sent (outbox (hook s)))" for d
    using votes_sent_sendMessage [of "''poll-response''" d "hook s"] by simp
  with SubmitPollResponse show ?thesis
    by (simp add: budget_def submitPollResponse_def)
next
  case (FetchRecordings response)
  then show ?thesis by (cases response) (simp_all add: budget_def fetchRecordings_def)
next
  case (SetConnectionQuality q)
  then show ?thesis by (simp add: budget_def setConnectionQuality_def)
qed

lemma budget_run:
  "\<forall>e\<in>set es. \<not> poll_boundary e \<Longrightarrow> budget (fold student_step es s) \<le> budget s"
proof (induction es arbitrary: s)
  case Nil
  then show ?case by simp
next
  case (Cons e es)
  have "budget (fold student_step es (student_step e s)) \<le> budget (student_step e s)"
    using Cons by simp
  also have "\<dots> \<le> budget s"
    using Cons.prems by (simp add: budget_step)
  finally show ?case by simp
qed

lemma latch_step:
  assumes "hasVoted s" and "\<not> poll_boundary e"
  shows "hasVoted (student_step e s)"
proof (cases e)
  case (Receive ev)
  with assms show ?thesis
    by (cases ev)
       (auto simp: on_session_started_def on_session_ended_def on_chat_message_def)
next
  case (FetchRecordings response)
  with assms show ?thesis by (cases response) (simp_all add: fetchRecordings_def)
qed (use assms in \<open>simp_all add: joinClass_def leaveClass_def setNewMessage_def
       student_sendChatMessage_def sendChatMessage_def Let_def setSelectedPollOption_def
       submitPollResponse_def setConnectionQuality_def\<close>)

text \<open>
  Claim C10. Over any sequence of steps of the student component in which no
  \<open>poll-created\<close> or \<open>poll-closed\<close> event arrives, the student emits at most one
  \<open>poll-response\<close>, and none when \<open>hasVoted\<close> was already set. Once \<open>hasVoted\<close> is
  set, \<open>submitPollResponse\<close> changes nothing, and every step other than the arrival of
  \<open>poll-created\<close> or \<open>poll-closed\<close> keeps it set; a submission with an option
  selected sets it, and the handlers of \<open>poll-created\<close> and \<open>poll-closed\<close> clear it.
\<close>

theorem one_vote_per_poll:
  "((\<forall>e\<in>set es. \<not> poll_boundary e) \<longrightarrow>
      votes_sent (outbox (hook (fold student_step es s)))
        \<le> votes_sent (outbox (hook s)) + (if hasVoted s then 0 else 1))
   \<and> (hasVoted s \<longrightarrow> submitPollResponse s = s)
   \<and> (hasVoted s \<and> \<not> poll_boundary e \<longrightarrow> hasVoted (student_step e s))
   \<and> (truthy (selectedPollOption s) \<longrightarrow> hasVoted (submitPollResponse s))
   \<and> \<not> hasVoted (on_poll_created poll s)
   \<and> \<not> hasVoted (on_poll_closed s)"
proof (intro conjI impI)
  assume "\<forall>e\<in>set es. \<not> poll_boundary e"
  then have "budget (fold student_step es s) \<le> budget s"
    by (rule budget_run)
  then show "votes_sent (outbox (hook (fold student_step es s)))
        \<le> votes_sent (outbox (hook s)) + (if hasVoted s then 0 else 1)"
    by (simp add: budget_def split: if_splits)
next
  assume "hasVoted s"
  then show "submitPollResponse s = s"
    by (simp add: submitPollResponse_def)
next
  assume "hasVoted s \<and> \<not> poll_boundary e"
  then show "hasVoted (student_step e s)"
    by (simp add: latch_step)
next
  assume "truthy (selectedPollOption s)"
  then show "hasVoted (submitPollResponse s)"
    by (simp add: submitPollResponse_def)
next
  show "\<not> hasVoted (on_poll_created poll s)"
    by (simp add: on_poll_created_def)
next
  show "\<not> hasVoted (on_poll_closed s)"
    by (simp add: on_poll_closed_def)
qed

theorem one_vote_per_poll_witness:
  "votes_sent (outbox (hook (fold student_step
      [SetSelectedPollOption ''A'', SubmitPollResponse, SetSelectedPollOption ''B'',
       SubmitPollResponse,
       Receive (StudentChat \<lparr>msg_id = ''5'', msg_text = ''hi'', sender = ''Teacher'',
                               timestamp = 6\<rparr>),
       SubmitPollResponse]
      student_with_poll))) \<le> 1
   \<and> hasVoted (submitPollResponse (setSelectedPollOption ''A'' student_with_poll))
   \<and> submitPollResponse (submitPollResponse (setSelectedPollOption ''A'' student_with_poll))
       = submitPollResponse (setSelectedPollOption ''A'' student_with_poll)
   \<and> hasVoted (student_step (SetSelectedPollOption ''B'')
        (submitPollResponse (setSelectedPollOption ''A'' student_with_poll)))"
proof -
  note run = one_vote_per_poll
      [of "[SetSelectedPollOption ''A'', SubmitPollResponse, SetSelectedPollOption ''B'',
            SubmitPollResponse,
       Receive (StudentChat \<lparr>msg_id = ''5'', msg_text = ''hi'', sender = ''Teacher'',
                               timestamp = 6\<rparr>),
       SubmitPollResponse]"
          student_with_poll]
  note first = one_vote_per_poll [of _ "setSelectedPollOption ''A'' student_with_poll"]
  note later = one_vote_per_poll
      [of _ "submitPollResponse (setSelectedPollOption ''A'' student_with_poll)"
          "SetSelectedPollOption ''B''"]
  have z: "votes_sent (outbox (hook student_with_poll)) = 0"
    by (simp add: student_with_poll_def on_poll_created_def connected_student_def
          initial_student_def outbox_def on_connect_def mount_def initial_hook_def votes_sent_def)
  have 1: "votes_sent (outbox (hook (fold student_step
      [SetSelectedPollOption ''A'', SubmitPollResponse, SetSelectedPollOption ''B'',
       SubmitPollResponse,
       Receive (StudentChat \<lparr>msg_id = ''5'', msg_text = ''hi'', sender = ''Teacher'',
                               timestamp = 6\<rparr>),
       SubmitPollResponse]
      student_with_poll))) \<le> 1"
  proof -
    have "\<forall>e\<in>set [SetSelectedPollOption ''A'', SubmitPollResponse, SetSelectedPollOption ''B'',
       SubmitPollResponse,
       Receive (StudentChat \<lparr>msg_id = ''5'', msg_text = ''hi'', sender = ''Teacher'',
                               timestamp = 6\<rparr>),
       SubmitPollResponse]. \<not> poll_boundary e"
      by simp
    with run have "votes_sent (outbox (hook (fold student_step
        [SetSelectedPollOption ''A'', SubmitPollResponse, SetSelectedPollOption ''B'',
         SubmitPollResponse,
       Receive (StudentChat \<lparr>msg_id = ''5'', msg_text = ''hi'', sender = ''Teacher'',
                               timestamp = 6\<rparr>),
       SubmitPollResponse]
        student_with_poll)))
      \<le> votes_sent (outbox (hook student_with_poll))
          + (if hasVoted student_with_poll then 0 else 1)"
      by blast
    also have "\<dots> \<le> 1"
      using z by simp
    finally show ?thesis .
  qed
  have t: "truthy (selectedPollOption (setSelectedPollOption ''A'' student_with_poll))"
    by (simp add: setSelectedPollOption_def truthy_def)
  have 2: "hasVoted (submitPollResponse (setSelectedPollOption ''A'' student_with_poll))"
    using first t by blast
  have 3: "submitPollResponse (submitPollResponse (setSelectedPollOption ''A'' student_with_poll))
       = submitPollResponse (setSelectedPollOption ''A'' student_with_poll)"
    using later 2 by blast
  have b: "\<not> poll_boundary (SetSelectedPollOption ''B'')"
    by simp
  have 4: "hasVoted (student_step (SetSelectedPollOption ''B'')
        (submitPollResponse (setSelectedPollOption ''A'' student_with_poll)))"
    using later 2 b by blast
  from 1 2 3 4 show ?thesis by (intro conjI)
qed

end
